theory Spec2Isabelle
  imports Main "HOL-Library.AList" "HOL-Library.Multiset"
begin

section \<open>JSON values as the JavaScript code reads them\<close>

text \<open>
  Payloads, shape properties and clocks travel as JSON. An object is an association list:
  a key is read with \<open>map_of\<close> (\<open>None\<close> is JavaScript's \<open>undefined\<close>) and written with
  \<open>AList.update\<close>, which overwrites the key in place or appends it, as an assignment
  to an object property does. Numbers are the integers among the JSON numbers.
\<close>

datatype json =
    JNull
  | JBool bool
  | JNum int
  | JStr string
  | JArr "json list"
  | JObj "(string \<times> json) list"

type_synonym object = "(string \<times> json) list"

type_synonym uuid = string

fun truthy :: "json \<Rightarrow> bool" where
  "truthy JNull = False"
| "truthy (JBool b) = b"
| "truthy (JNum n) = (n \<noteq> 0)"
| "truthy (JStr s) = (s \<noteq> [])"
| "truthy (JArr xs) = True"
| "truthy (JObj ps) = True"

text \<open>\<open>a || b\<close>, where either side may be \<open>undefined\<close>.\<close>

definition or_else :: "json option \<Rightarrow> json option \<Rightarrow> json option" where
  "or_else a b = (case a of None \<Rightarrow> b | Some v \<Rightarrow> if truthy v then Some v else b)"

text \<open>
  \<open>v.k\<close> for one of the fixed keys the store reads (\<open>type\<close>, \<open>zIndex\<close>, \<open>x\<close>, \<open>y\<close>,
  \<open>timestamp\<close>) on a value that is not \<open>null\<close>: a number, a boolean, a string or an
  array has no such property.
\<close>

fun field :: "json \<Rightarrow> string \<Rightarrow> json option" where
  "field (JObj ps) k = map_of ps k"
| "field v k = None"

text \<open>
  The spread \<open>{...target, ...source}\<close> and jsonb \<open>||\<close> on two objects: every key of the
  source is defined on the result, whatever its name.
\<close>

definition assign :: "object \<Rightarrow> object \<Rightarrow> object" where
  "assign target source = fold (\<lambda>(k, v). AList.update k v) source target"

subsection \<open>Properties under a computed key\<close>

text \<open>
  The objects of the program are plain objects, which inherit from \<open>Object.prototype\<close>.
  These are the names of its members in Node.js. The keys the code writes out (\<open>type\<close>,
  \<open>properties\<close>, \<open>timestamp\<close>, ...) are not among them, so for those \<open>map_of\<close> is the
  read; a key taken from the data can be any string.
\<close>

definition Object_prototype :: "string list" where
  "Object_prototype =
     [''constructor'', ''__defineGetter__'', ''__defineSetter__'', ''hasOwnProperty'',
      ''__lookupGetter__'', ''__lookupSetter__'', ''isPrototypeOf'', ''propertyIsEnumerable'',
      ''toString'', ''valueOf'', ''__proto__'', ''toLocaleString'']"

text \<open>
  \<open>obj[key]\<close>: the object's own property; else, for one of the names above, the inherited
  member (a function, and for \<open>__proto__\<close> the prototype itself), which is not
  \<open>undefined\<close> and is truthy; else \<open>undefined\<close>.
\<close>

datatype 'a lookup = Undefined | Own 'a | Inherited

definition js_get :: "(string \<times> 'a) list \<Rightarrow> string \<Rightarrow> 'a lookup" where
  "js_get obj key =
     (case map_of obj key of
        Some v \<Rightarrow> Own v
      | None \<Rightarrow> if key \<in> set Object_prototype then Inherited else Undefined)"

text \<open>
  \<open>obj[key] = v\<close>. For the key \<open>__proto__\<close> on an object that does not hold it itself the
  assignment runs the inherited setter, which defines no property: the object's own
  properties stay as they are.
\<close>

definition js_set :: "string \<Rightarrow> 'a \<Rightarrow> (string \<times> 'a) list \<Rightarrow> (string \<times> 'a) list" where
  "js_set key v obj =
     (if key = ''__proto__'' \<and> map_of obj key = None then obj else AList.update key v obj)"

text \<open>
  A value as a comparison takes it: a number, or an inherited member. Converted for the
  comparison, a member becomes text that is no number, so \<open>>\<close> and \<open><\<close> are false between
  a member and a number, and false between a member and itself.
\<close>

datatype operand = Number int | Member

fun gt :: "operand \<Rightarrow> operand \<Rightarrow> bool" where
  "gt (Number a) (Number b) = (a > b)"
| "gt a b = False"

fun lt :: "operand \<Rightarrow> operand \<Rightarrow> bool" where
  "lt (Number a) (Number b) = (a < b)"
| "lt a b = False"

section \<open>The database of the event store\<close>

text \<open>
  The three tables of the schema. Times are milliseconds; \<open>CURRENT_TIMESTAMP\<close> is the
  time \<open>now\<close> handed to each operation, and the identifier \<open>uuidv4()\<close> returns is handed
  in as well. Identifiers are valid UUIDs. A failed statement is a value of \<open>error\<close>;
  \<open>Unmodelled\<close> marks a value that JavaScript, the driver or the column type would
  convert or reject in a way this model does not describe (a number as a shape type, an
  array as a timestamp, a non-object as a property map): there the model gives no answer.
\<close>

datatype error =
    NotNullViolation
  | ForeignKeyViolation
  | UniqueViolation
  | StringTooLong
  | IntegerOutOfRange
  | Unmodelled

record canvas_row =
  c_id :: uuid
  c_name :: string
  c_created_at :: int
  c_updated_at :: int

record shape_row =
  s_id :: uuid
  s_canvas_id :: uuid
  s_type :: string
  s_properties :: object
  s_z_index :: "int option"
  s_created_at :: int
  s_updated_at :: int
  s_deleted_at :: "int option"

record event_row =
  e_id :: uuid
  e_canvas_id :: uuid
  e_shape_id :: "uuid option"
  e_user_id :: string
  e_event_type :: string
  e_payload :: object
  e_version :: nat
  e_created_at :: int

record db =
  canvases :: "canvas_row list"
  shapes :: "shape_row list"
  events :: "event_row list"

definition empty_db :: db where
  "empty_db = \<lparr>canvases = [], shapes = [], events = []\<rparr>"

text \<open>Parameters against their column types: \<open>VARCHAR(n) NOT NULL\<close>, \<open>INTEGER\<close>, \<open>JSONB\<close>.\<close>

fun as_varchar :: "nat \<Rightarrow> json option \<Rightarrow> error + string" where
  "as_varchar n None = Inl NotNullViolation"
| "as_varchar n (Some JNull) = Inl NotNullViolation"
| "as_varchar n (Some (JStr s)) = (if length s \<le> n then Inr s else Inl StringTooLong)"
| "as_varchar n (Some v) = Inl Unmodelled"

fun as_integer :: "json option \<Rightarrow> error + int option" where
  "as_integer None = Inr None"
| "as_integer (Some JNull) = Inr None"
| "as_integer (Some (JNum n)) =
     (if - 2147483648 \<le> n \<and> n \<le> 2147483647 then Inr (Some n) else Inl IntegerOutOfRange)"
| "as_integer (Some v) = Inl Unmodelled"

fun as_object :: "json \<Rightarrow> error + object" where
  "as_object (JObj ps) = Inr ps"
| "as_object v = Inl Unmodelled"

text \<open>
  A JSON value converted to a number, as \<open>-\<close> and \<open>>\<close> convert their operands: a number is
  itself, \<open>true\<close> is 1, \<open>false\<close> and \<open>null\<close> are 0, and a string of decimal digits is the
  number it spells (the empty string 0).
\<close>

definition digits :: "(char \<times> nat) list" where
  "digits =
     [(CHR ''0'', 0), (CHR ''1'', 1), (CHR ''2'', 2), (CHR ''3'', 3), (CHR ''4'', 4),
      (CHR ''5'', 5), (CHR ''6'', 6), (CHR ''7'', 7), (CHR ''8'', 8), (CHR ''9'', 9)]"

fun decimal :: "nat \<Rightarrow> string \<Rightarrow> nat option" where
  "decimal n [] = Some n"
| "decimal n (c # cs) =
     (case map_of digits c of None \<Rightarrow> None | Some k \<Rightarrow> decimal (10 * n + k) cs)"

fun to_number :: "json \<Rightarrow> error + int" where
  "to_number (JNum n) = Inr n"
| "to_number (JBool b) = Inr (if b then 1 else 0)"
| "to_number JNull = Inr 0"
| "to_number (JStr s) = (case decimal 0 s of None \<Rightarrow> Inl Unmodelled | Some n \<Rightarrow> Inr (int n))"
| "to_number v = Inl Unmodelled"

section \<open>eventStore.js\<close>

definition STORED_EVENT_TYPES :: "string list" where
  "STORED_EVENT_TYPES =
     [''USER_CONNECTED'', ''USER_DISCONNECTED'', ''POINTER_DOWN'', ''DRAG_START'', ''DRAG_END'',
      ''SHAPE_CREATED'', ''SHAPE_EDITED'', ''SHAPE_MOVED'', ''SHAPE_DELETED'']"

definition shouldStoreEvent :: "string \<Rightarrow> bool" where
  "shouldStoreEvent eventType = (eventType \<in> set STORED_EVENT_TYPES)"

text \<open>
  \<open>mergeProperties\<close>: the loop over \<open>Object.entries(clientProps)\<close>. A timestamp is
  \<open>timestamps[key] || 0\<close>, read under the key of the property.
\<close>

definition timestamp_of :: "object \<Rightarrow> string \<Rightarrow> error + operand" where
  "timestamp_of timestamps key =
     (case js_get timestamps key of
        Undefined \<Rightarrow> Inr (Number 0)
      | Inherited \<Rightarrow> Inr Member
      | Own v \<Rightarrow>
          if truthy v
          then (case to_number v of Inl e \<Rightarrow> Inl e | Inr n \<Rightarrow> Inr (Number n))
          else Inr (Number 0))"

fun mergeProperties_loop :: "object \<Rightarrow> object \<Rightarrow> object \<Rightarrow> object \<Rightarrow> error + object" where
  "mergeProperties_loop serverTimestamps clientTimestamps merged [] = Inr merged"
| "mergeProperties_loop serverTimestamps clientTimestamps merged ((key, val) # rest) =
     (case timestamp_of serverTimestamps key of
        Inl e \<Rightarrow> Inl e
      | Inr serverTime \<Rightarrow>
          (case timestamp_of clientTimestamps key of
             Inl e \<Rightarrow> Inl e
           | Inr clientTime \<Rightarrow>
               mergeProperties_loop serverTimestamps clientTimestamps
                 (if gt clientTime serverTime then js_set key val merged else merged) rest))"

definition mergeProperties :: "object \<Rightarrow> object \<Rightarrow> object \<Rightarrow> object \<Rightarrow> error + object" where
  "mergeProperties serverProps clientProps serverTimestamps clientTimestamps =
     mergeProperties_loop serverTimestamps clientTimestamps serverProps clientProps"

text \<open>\<open>SELECT COALESCE(MAX(version), 0) FROM events WHERE canvas_id = $1\<close>.\<close>

definition getCurrentVersion :: "db \<Rightarrow> uuid \<Rightarrow> nat" where
  "getCurrentVersion d canvasId =
     fold max (map e_version (filter (\<lambda>e. e_canvas_id e = canvasId) (events d))) 0"

record conflict =
  k_shapeId :: uuid
  k_serverProperties :: object
  k_serverTimestamp :: int

text \<open>
  \<open>detectConflict\<close>. The row is looked up by \<open>id\<close> and \<open>canvas_id\<close>; the client's
  timestamp is only compared when the payload carries a vector clock.
\<close>

definition clientTimestamp_of :: "object \<Rightarrow> json" where
  "clientTimestamp_of payload =
     (case or_else
             (or_else (map_of payload ''timestamp'')
                (case map_of payload ''propertyTimestamps'' of
                   None \<Rightarrow> None
                 | Some JNull \<Rightarrow> None
                 | Some pt \<Rightarrow> field pt ''timestamp''))
             (Some (JNum 0)) of
        None \<Rightarrow> JNum 0
      | Some v \<Rightarrow> v)"

definition detectConflict :: "db \<Rightarrow> uuid \<Rightarrow> uuid option \<Rightarrow> object \<Rightarrow> error + conflict option" where
  "detectConflict d canvasId shapeId payload =
     (case shapeId of
        None \<Rightarrow> Inr None
      | Some sid \<Rightarrow>
          (case filter (\<lambda>r. s_id r = sid \<and> s_canvas_id r = canvasId) (shapes d) of
             [] \<Rightarrow> Inr None
           | serverShape # others \<Rightarrow>
               (let clientTimestamp = clientTimestamp_of payload;
                    serverTimestamp = s_updated_at serverShape
                in case or_else (map_of payload ''vectorClock'') None of
                     None \<Rightarrow> Inr None
                   | Some vc \<Rightarrow>
                       (case to_number clientTimestamp of
                          Inl e \<Rightarrow> Inl e
                        | Inr ct \<Rightarrow>
                            if serverTimestamp > ct - 1000
                            then Inr (Some \<lparr>k_shapeId = sid,
                                            k_serverProperties = s_properties serverShape,
                                            k_serverTimestamp = serverTimestamp\<rparr>)
                            else Inr None))))"

text \<open>
  \<open>resolveConflict\<close> of the store: the server's timestamps are the empty object, and the
  result is \<open>{...clientPayload, properties: mergedProperties, conflictResolved: true}\<close>.
\<close>

definition clientProperties_of :: "object \<Rightarrow> json option" where
  "clientProperties_of clientPayload =
     or_else (or_else (map_of clientPayload ''properties'') (map_of clientPayload ''position''))
       (Some (JObj clientPayload))"

definition clientTimestamps_of :: "object \<Rightarrow> json option" where
  "clientTimestamps_of clientPayload =
     or_else (map_of clientPayload ''propertyTimestamps'') (Some (JObj []))"

definition EventStore_resolveConflict :: "conflict \<Rightarrow> object \<Rightarrow> error + object" where
  "EventStore_resolveConflict c clientPayload =
     (case clientProperties_of clientPayload of
        None \<Rightarrow> Inl Unmodelled
      | Some cp \<Rightarrow>
          (case as_object cp of
             Inl e \<Rightarrow> Inl e
           | Inr clientProperties \<Rightarrow>
               (case clientTimestamps_of clientPayload of
                  None \<Rightarrow> Inl Unmodelled
                | Some ct \<Rightarrow>
                    (case as_object ct of
                       Inl e \<Rightarrow> Inl e
                     | Inr clientTimestamps \<Rightarrow>
                         (case mergeProperties (k_serverProperties c) clientProperties []
                                 clientTimestamps of
                            Inl e \<Rightarrow> Inl e
                          | Inr mergedProperties \<Rightarrow>
                              Inr (AList.update ''conflictResolved'' (JBool True)
                                     (AList.update ''properties'' (JObj mergedProperties)
                                        clientPayload)))))))"

text \<open>
  \<open>UPDATE shapes SET ... WHERE id = $1 AND canvas_id = $2\<close>. No row has a \<open>NULL\<close> id, so
  an event without a shape id updates nothing.
\<close>

definition targets :: "uuid option \<Rightarrow> uuid \<Rightarrow> shape_row \<Rightarrow> bool" where
  "targets shapeId canvasId r = (shapeId = Some (s_id r) \<and> s_canvas_id r = canvasId)"

definition update_shapes :: "uuid option \<Rightarrow> uuid \<Rightarrow> (shape_row \<Rightarrow> shape_row) \<Rightarrow> shape_row list \<Rightarrow> shape_row list" where
  "update_shapes shapeId canvasId f rows = map (\<lambda>r. if targets shapeId canvasId r then f r else r) rows"

text \<open>
  \<open>properties = jsonb_set(jsonb_set(properties, '{x}', $1), '{y}', $2)\<close>. A coordinate that
  is \<open>undefined\<close> reaches the statement as \<open>NULL\<close>; \<open>jsonb_set\<close> then yields \<open>NULL\<close>, which
  the \<open>NOT NULL\<close> column refuses in every row the statement updates.
\<close>

definition set_position :: "int \<Rightarrow> uuid option \<Rightarrow> uuid \<Rightarrow> json option \<Rightarrow> json option \<Rightarrow> shape_row list \<Rightarrow> error + shape_row list" where
  "set_position now shapeId canvasId x y rows =
     (case (x, y) of
        (Some xv, Some yv) \<Rightarrow>
          Inr (update_shapes shapeId canvasId
                 (\<lambda>r. r\<lparr>s_properties := AList.update ''y'' yv (AList.update ''x'' xv (s_properties r)),
                        s_updated_at := now\<rparr>) rows)
      | _ \<Rightarrow> if \<exists>r \<in> set rows. targets shapeId canvasId r then Inl NotNullViolation else Inr rows)"

text \<open>\<open>properties = properties || $1\<close>, with the same treatment of a \<open>NULL\<close> parameter.\<close>

definition concat_properties :: "int \<Rightarrow> uuid option \<Rightarrow> uuid \<Rightarrow> json option \<Rightarrow> shape_row list \<Rightarrow> error + shape_row list" where
  "concat_properties now shapeId canvasId props rows =
     (case props of
        None \<Rightarrow> if \<exists>r \<in> set rows. targets shapeId canvasId r then Inl NotNullViolation else Inr rows
      | Some p \<Rightarrow>
          (case as_object p of
             Inl e \<Rightarrow> Inl e
           | Inr ps \<Rightarrow>
               Inr (update_shapes shapeId canvasId
                      (\<lambda>r. r\<lparr>s_properties := assign (s_properties r) ps, s_updated_at := now\<rparr>) rows)))"

text \<open>
  \<open>applyEvent\<close>: the \<open>switch\<close> on the event type, returning the new \<open>shapes\<close> table. The
  upsert of \<open>SHAPE_CREATED\<close> checks the proposed row against the column constraints, then
  either updates the row that holds the id (its \<open>type\<close> and \<open>canvas_id\<close> are not in the
  \<open>SET\<close> list) or inserts.
\<close>

definition applyEvent :: "int \<Rightarrow> db \<Rightarrow> uuid \<Rightarrow> string \<Rightarrow> uuid option \<Rightarrow> object \<Rightarrow> error + shape_row list" where
  "applyEvent now d canvasId eventType shapeId payload =
    (if eventType = ''SHAPE_CREATED'' then
       (case or_else (map_of payload ''properties'') (Some (JObj payload)) of
          None \<Rightarrow> Inl Unmodelled
        | Some properties \<Rightarrow>
            (let shapeType = or_else (map_of payload ''type'') (field properties ''type'');
                 zIndex = or_else (or_else (map_of payload ''zIndex'') (field properties ''zIndex''))
                            (Some (JNum 0))
             in case shapeId of
                  None \<Rightarrow> Inl NotNullViolation
                | Some sid \<Rightarrow>
                    (case as_varchar 50 shapeType of
                       Inl e \<Rightarrow> Inl e
                     | Inr ty \<Rightarrow>
                         (case as_object properties of
                            Inl e \<Rightarrow> Inl e
                          | Inr props \<Rightarrow>
                              (case as_integer zIndex of
                                 Inl e \<Rightarrow> Inl e
                               | Inr z \<Rightarrow>
                                   if \<exists>r \<in> set (shapes d). s_id r = sid
                                   then Inr (map (\<lambda>r. if s_id r = sid
                                                       then r\<lparr>s_properties := props, s_z_index := z,
                                                              s_updated_at := now, s_deleted_at := None\<rparr>
                                                       else r) (shapes d))
                                   else if \<exists>c \<in> set (canvases d). c_id c = canvasId
                                   then Inr (shapes d @
                                              [\<lparr>s_id = sid, s_canvas_id = canvasId, s_type = ty,
                                                s_properties = props, s_z_index = z,
                                                s_created_at = now, s_updated_at = now,
                                                s_deleted_at = None\<rparr>])
                                   else Inl ForeignKeyViolation)))))
     else if eventType = ''SHAPE_EDITED'' then
       concat_properties now shapeId canvasId
         (or_else (map_of payload ''properties'') (Some (JObj payload))) (shapes d)
     else if eventType = ''SHAPE_MOVED'' then
       (case or_else (map_of payload ''position'') (Some (JObj payload)) of
          None \<Rightarrow> Inl Unmodelled
        | Some position \<Rightarrow>
            set_position now shapeId canvasId (field position ''x'') (field position ''y'') (shapes d))
     else if eventType = ''DRAG_END'' then
       (case or_else (map_of payload ''endPosition'') None of
          None \<Rightarrow> Inr (shapes d)
        | Some endPosition \<Rightarrow>
            set_position now shapeId canvasId (field endPosition ''x'') (field endPosition ''y'')
              (shapes d))
     else if eventType = ''SHAPE_DELETED'' then
       Inr (update_shapes shapeId canvasId
              (\<lambda>r. r\<lparr>s_deleted_at := Some now, s_updated_at := now\<rparr>) (shapes d))
     else if eventType \<in> {''POINTER_DOWN'', ''DRAG_START'', ''USER_CONNECTED'', ''USER_DISCONNECTED''} then
       Inr (shapes d)
     else if eventType = ''SHAPE_UPDATED'' then
       concat_properties now shapeId canvasId (map_of payload ''properties'') (shapes d)
     else if eventType = ''SHAPE_RESIZED'' then
       concat_properties now shapeId canvasId (Some (JObj payload)) (shapes d)
     else if eventType = ''SHAPE_ROTATED'' then
       (case map_of payload ''rotation'' of
          None \<Rightarrow> if \<exists>r \<in> set (shapes d). targets shapeId canvasId r
                  then Inl NotNullViolation else Inr (shapes d)
        | Some rot \<Rightarrow>
            Inr (update_shapes shapeId canvasId
                   (\<lambda>r. r\<lparr>s_properties := AList.update ''rotation'' rot (s_properties r),
                          s_updated_at := now\<rparr>) (shapes d)))
     else if eventType = ''SHAPE_RESTORED'' then
       Inr (update_shapes shapeId canvasId
              (\<lambda>r. r\<lparr>s_deleted_at := None, s_updated_at := now\<rparr>) (shapes d))
     else if eventType = ''Z_INDEX_CHANGED'' then
       (case as_integer (map_of payload ''zIndex'') of
          Inl e \<Rightarrow> Inl e
        | Inr z \<Rightarrow>
            Inr (update_shapes shapeId canvasId (\<lambda>r. r\<lparr>s_z_index := z, s_updated_at := now\<rparr>)
                   (shapes d)))
     else Inr (shapes d))"

record stored_event =
  se_eventId :: "uuid option"
  se_version :: nat
  se_canvasId :: uuid
  se_userId :: string
  se_eventType :: string
  se_shapeId :: "uuid option"
  se_payload :: object
  se_stored :: "bool option"
  se_hadConflict :: "bool option"

definition insert_event :: "db \<Rightarrow> event_row \<Rightarrow> error + db" where
  "insert_event d e =
     (if e_id e \<in> set (map e_id (events d)) then Inl UniqueViolation
      else if \<not> (\<exists>c \<in> set (canvases d). c_id c = e_canvas_id e) then Inl ForeignKeyViolation
      else if length (e_user_id e) > 255 \<or> length (e_event_type e) > 50 then Inl StringTooLong
      else Inr (d\<lparr>events := events d @ [e]\<rparr>))"

text \<open>
  The statements that \<open>storeEvent\<close> and the loop of \<open>storeBatchEvents\<close> share, inside the
  open transaction. First those that read: detect and resolve a conflict, take
  \<open>MAX(version) + 1\<close>. Then those that write: insert the event with the resolved payload
  and that version, apply it to the shapes table.
\<close>

definition store_reads :: "db \<Rightarrow> uuid \<Rightarrow> uuid option \<Rightarrow> object \<Rightarrow> error + (conflict option \<times> object \<times> nat)" where
  "store_reads d cid sid pl =
     (case detectConflict d cid sid pl of
        Inl e \<Rightarrow> Inl e
      | Inr conflict \<Rightarrow>
          (case (case conflict of None \<Rightarrow> Inr pl | Some c \<Rightarrow> EventStore_resolveConflict c pl) of
             Inl e \<Rightarrow> Inl e
           | Inr resolvedPayload \<Rightarrow> Inr (conflict, resolvedPayload, getCurrentVersion d cid + 1)))"

definition store_writes :: "uuid \<Rightarrow> int \<Rightarrow> db \<Rightarrow> uuid \<Rightarrow> string \<Rightarrow> string \<Rightarrow> uuid option \<Rightarrow> conflict option \<times> object \<times> nat \<Rightarrow> error + (stored_event \<times> conflict option \<times> db)" where
  "store_writes newId now d cid uid etype sid plan =
     (case plan of (conflict, resolvedPayload, next_version) \<Rightarrow>
        (case insert_event d
                \<lparr>e_id = newId, e_canvas_id = cid, e_shape_id = sid, e_user_id = uid,
                 e_event_type = etype, e_payload = resolvedPayload,
                 e_version = next_version, e_created_at = now\<rparr> of
           Inl e \<Rightarrow> Inl e
         | Inr d1 \<Rightarrow>
             (case applyEvent now d1 cid etype sid resolvedPayload of
                Inl e \<Rightarrow> Inl e
              | Inr rows \<Rightarrow>
                  Inr (\<lparr>se_eventId = Some newId, se_version = next_version, se_canvasId = cid,
                        se_userId = uid, se_eventType = etype, se_shapeId = sid,
                        se_payload = resolvedPayload, se_stored = Some True,
                        se_hadConflict = Some (conflict \<noteq> None)\<rparr>,
                       conflict,
                       d1\<lparr>shapes := rows\<rparr>))))"

definition store_in_transaction :: "uuid \<Rightarrow> int \<Rightarrow> db \<Rightarrow> uuid \<Rightarrow> string \<Rightarrow> string \<Rightarrow> uuid option \<Rightarrow> object \<Rightarrow> error + (stored_event \<times> conflict option \<times> db)" where
  "store_in_transaction newId now d cid uid etype sid pl =
     (case store_reads d cid sid pl of
        Inl e \<Rightarrow> Inl e
      | Inr plan \<Rightarrow> store_writes newId now d cid uid etype sid plan)"

definition touch_canvas :: "int \<Rightarrow> uuid \<Rightarrow> db \<Rightarrow> db" where
  "touch_canvas now cid d =
     d\<lparr>canvases := map (\<lambda>c. if c_id c = cid then c\<lparr>c_updated_at := now\<rparr> else c) (canvases d)\<rparr>"

text \<open>
  \<open>storeEvent\<close> returns what the caller sees (the result, or the error thrown after
  \<open>ROLLBACK\<close>) and the database afterwards. This is the call that runs with no other
  transaction between its statements.
\<close>

definition storeEvent :: "uuid \<Rightarrow> int \<Rightarrow> db \<Rightarrow> uuid \<Rightarrow> string \<Rightarrow> string \<Rightarrow> uuid option \<Rightarrow> object \<Rightarrow> (error + stored_event) \<times> db" where
  "storeEvent newId now d cid uid etype sid pl =
     (if \<not> shouldStoreEvent etype then
        (Inr \<lparr>se_eventId = None, se_version = getCurrentVersion d cid, se_canvasId = cid, se_userId = uid,
              se_eventType = etype, se_shapeId = sid, se_payload = pl, se_stored = Some False,
              se_hadConflict = None\<rparr>, d)
      else
        (case store_in_transaction newId now d cid uid etype sid pl of
           Inl e \<Rightarrow> (Inl e, d)
         | Inr (ev, conflict, d1) \<Rightarrow> (Inr ev, touch_canvas now cid d1)))"

text \<open>
  The pool runs the transactions of several calls at once; no statement of \<open>storeEvent\<close>
  locks the canvas, and a statement sees what was committed when it starts.
  \<open>storeEvent_after\<close> is a call for a storable kind whose reading statements found the
  database \<open>d\<close> and whose writing statements find \<open>d2\<close>, the transactions of other calls
  having committed in between; its own commit follows its writes.
\<close>

definition storeEvent_after :: "uuid \<Rightarrow> int \<Rightarrow> db \<Rightarrow> db \<Rightarrow> uuid \<Rightarrow> string \<Rightarrow> string \<Rightarrow> uuid option \<Rightarrow> object \<Rightarrow> (error + stored_event) \<times> db" where
  "storeEvent_after newId now d d2 cid uid etype sid pl =
     (case store_reads d cid sid pl of
        Inl e \<Rightarrow> (Inl e, d2)
      | Inr plan \<Rightarrow>
          (case store_writes newId now d2 cid uid etype sid plan of
             Inl e \<Rightarrow> (Inl e, d2)
           | Inr (ev, conflict, d3) \<Rightarrow> (Inr ev, touch_canvas now cid d3)))"

text \<open>
  \<open>storeBatchEvents\<close>: one transaction for the whole list. \<open>newIds k\<close> is the identifier
  drawn for the \<open>k\<close>-th event of the batch that is stored. The entries of \<open>storedEvents\<close>
  have no \<open>stored\<close> field.
\<close>

record batch_event =
  b_localEventId :: "json option"
  b_userId :: string
  b_eventType :: string
  b_shapeId :: "uuid option"
  b_payload :: object

record batch_conflict =
  bc_shapeId :: "uuid option"
  bc_localVersion :: json
  bc_serverVersion :: object

fun storeBatch_loop :: "(nat \<Rightarrow> uuid) \<Rightarrow> int \<Rightarrow> uuid \<Rightarrow> batch_event list \<Rightarrow> stored_event list \<Rightarrow> batch_conflict list \<Rightarrow> db \<Rightarrow> error + (stored_event list \<times> batch_conflict list \<times> db)" where
  "storeBatch_loop newIds now cid [] storedEvents conflicts d = Inr (storedEvents, conflicts, d)"
| "storeBatch_loop newIds now cid (event # rest) storedEvents conflicts d =
     (if \<not> shouldStoreEvent (b_eventType event)
      then storeBatch_loop newIds now cid rest storedEvents conflicts d
      else
        (case store_in_transaction (newIds (length storedEvents)) now d cid (b_userId event)
                (b_eventType event) (b_shapeId event) (b_payload event) of
           Inl e \<Rightarrow> Inl e
         | Inr (ev, conflict, d1) \<Rightarrow>
             storeBatch_loop newIds now cid rest
               (storedEvents @ [ev\<lparr>se_stored := None\<rparr>])
               (case conflict of
                  None \<Rightarrow> conflicts
                | Some c \<Rightarrow>
                    conflicts @
                      [\<lparr>bc_shapeId = b_shapeId event,
                        bc_localVersion =
                          (case or_else (map_of (b_payload event) ''properties'')
                                  (Some (JObj (b_payload event))) of
                             None \<Rightarrow> JObj (b_payload event)
                           | Some v \<Rightarrow> v),
                        bc_serverVersion = k_serverProperties c\<rparr>])
               d1))"

definition storeBatchEvents :: "(nat \<Rightarrow> uuid) \<Rightarrow> int \<Rightarrow> db \<Rightarrow> uuid \<Rightarrow> batch_event list \<Rightarrow> (error + (stored_event list \<times> batch_conflict list)) \<times> db" where
  "storeBatchEvents newIds now d cid evs =
     (case storeBatch_loop newIds now cid evs [] [] d of
        Inl e \<Rightarrow> (Inl e, d)
      | Inr (storedEvents, conflicts, d1) \<Rightarrow> (Inr (storedEvents, conflicts), touch_canvas now cid d1))"

text \<open>\<open>getEventsSinceVersion\<close>: \<open>WHERE canvas_id = $1 AND version > $2 ORDER BY version ASC\<close>.\<close>

definition getEventsSinceVersion :: "db \<Rightarrow> uuid \<Rightarrow> nat \<Rightarrow> event_row list" where
  "getEventsSinceVersion d cid sinceVersion =
     sort_key e_version (filter (\<lambda>e. e_canvas_id e = cid \<and> e_version e > sinceVersion) (events d))"

text \<open>
  \<open>getCanvasState\<close> runs two queries. The first selects the rows of the canvas that are
  not deleted, \<open>ORDER BY z_index ASC\<close>: \<open>NULL\<close> comes last, and the order of rows of equal
  \<open>z_index\<close> is left to the database. \<open>shapes_query d cid rows\<close> holds of every answer
  \<open>rows\<close> the database \<open>d\<close> may give. \<open>getCanvasState\<close> takes the answer it was given and
  returns each row as \<open>{id, type, ...properties, zIndex}\<close>, with the greatest version, which
  the second query reads.
\<close>

definition shape_json :: "shape_row \<Rightarrow> object" where
  "shape_json row =
     AList.update ''zIndex'' (case s_z_index row of None \<Rightarrow> JNull | Some z \<Rightarrow> JNum z)
       (assign [(''id'', JStr (s_id row)), (''type'', JStr (s_type row))] (s_properties row))"

definition z_index_le :: "shape_row \<Rightarrow> shape_row \<Rightarrow> bool" where
  "z_index_le a b =
     (case s_z_index b of
        None \<Rightarrow> True
      | Some y \<Rightarrow> (case s_z_index a of None \<Rightarrow> False | Some x \<Rightarrow> x \<le> y))"

definition shapes_query :: "db \<Rightarrow> uuid \<Rightarrow> shape_row list \<Rightarrow> bool" where
  "shapes_query d cid rows =
     (mset rows = mset (filter (\<lambda>r. s_canvas_id r = cid \<and> s_deleted_at r = None) (shapes d))
      \<and> sorted_wrt z_index_le rows)"

record canvas_state =
  cs_shapes :: "object list"
  cs_version :: nat

definition getCanvasState :: "db \<Rightarrow> uuid \<Rightarrow> shape_row list \<Rightarrow> canvas_state" where
  "getCanvasState d cid rows =
     \<lparr>cs_shapes = map shape_json rows, cs_version = getCurrentVersion d cid\<rparr>"

text \<open>\<open>getOrCreateCanvas\<close>: \<open>INSERT ... ON CONFLICT (id) DO UPDATE SET updated_at\<close>.\<close>

definition getOrCreateCanvas :: "int \<Rightarrow> db \<Rightarrow> uuid \<Rightarrow> string \<Rightarrow> (error + canvas_row) \<times> db" where
  "getOrCreateCanvas now d cid name =
     (if length name > 255 then (Inl StringTooLong, d)
      else
        (case filter (\<lambda>c. c_id c = cid) (canvases d) of
           [] \<Rightarrow>
             (let row = \<lparr>c_id = cid, c_name = name, c_created_at = now, c_updated_at = now\<rparr>
              in (Inr row, d\<lparr>canvases := canvases d @ [row]\<rparr>))
         | c # others \<Rightarrow> (Inr (c\<lparr>c_updated_at := now\<rparr>), touch_canvas now cid d)))"

text \<open>The versions of the events of a canvas, in the order in which they were committed.\<close>

definition versions_of :: "db \<Rightarrow> uuid \<Rightarrow> nat list" where
  "versions_of d cid = map e_version (filter (\<lambda>e. e_canvas_id e = cid) (events d))"

text \<open>
  A run used as an example below: the canvas \<open>c1\<close> is created, a rectangle \<open>s1\<close> is
  created on it, moved, and deleted.
\<close>

definition rectangle_payload :: object where
  "rectangle_payload =
     [(''type'', JStr ''rectangle''),
      (''properties'', JObj [(''x'', JNum 10), (''y'', JNum 20), (''width'', JNum 30),
                             (''height'', JNum 40), (''strokeColor'', JStr ''#000''),
                             (''strokeWidth'', JNum 2), (''fillColor'', JStr ''transparent'')]),
      (''zIndex'', JNum 0)]"

definition db_canvas :: db where
  "db_canvas = snd (getOrCreateCanvas 0 empty_db ''c1'' ''Untitled Canvas'')"

definition db_created :: db where
  "db_created =
     snd (storeEvent ''e1'' 10 db_canvas ''c1'' ''u1'' ''SHAPE_CREATED'' (Some ''s1'') rectangle_payload)"

definition db_moved :: db where
  "db_moved =
     snd (storeEvent ''e2'' 5000 db_created ''c1'' ''u1'' ''SHAPE_MOVED'' (Some ''s1'')
            [(''position'', JObj [(''x'', JNum 100), (''y'', JNum 200)])])"

definition db_deleted :: db where
  "db_deleted = snd (storeEvent ''e3'' 9000 db_moved ''c1'' ''u1'' ''SHAPE_DELETED'' (Some ''s1'') [])"

text \<open>
  The creation of \<open>s1\<close> sent again after the move, with the same arguments; the store draws
  a new event id and the time has moved on.
\<close>

definition db_replayed :: db where
  "db_replayed =
     snd (storeEvent ''e3'' 6000 db_moved ''c1'' ''u1'' ''SHAPE_CREATED'' (Some ''s1'') rectangle_payload)"

text \<open>
  Two edits of \<open>s1\<close> that reach the store at time 600, declaring the timestamp 500: one
  without a vector clock and one with.
\<close>

definition edit_without_clock :: object where
  "edit_without_clock =
     [(''properties'', JObj [(''strokeWidth'', JNum 5), (''fillColor'', JStr ''#fff'')]),
      (''propertyTimestamps'', JObj [(''strokeWidth'', JNum 500)]),
      (''timestamp'', JNum 500)]"

definition edit_with_clock :: object where
  "edit_with_clock =
     [(''properties'', JObj [(''strokeWidth'', JNum 5), (''fillColor'', JStr ''#fff'')]),
      (''propertyTimestamps'', JObj [(''strokeWidth'', JNum 500)]),
      (''timestamp'', JNum 500),
      (''vectorClock'', JObj [(''u2'', JNum 1)])]"

text \<open>
  Two users create the shapes \<open>s1\<close> and \<open>s2\<close> on the empty canvas \<open>c1\<close> at the same time:
  both calls read while the log of the canvas is empty, then the first writes and commits,
  then the second.
\<close>

definition circle_payload :: object where
  "circle_payload =
     [(''type'', JStr ''circle''),
      (''properties'', JObj [(''x'', JNum 1), (''y'', JNum 2), (''radius'', JNum 5)]),
      (''zIndex'', JNum 0)]"

definition db_first :: db where
  "db_first =
     snd (storeEvent_after ''e1'' 10 db_canvas db_canvas ''c1'' ''u1'' ''SHAPE_CREATED'' (Some ''s1'')
            rectangle_payload)"

definition db_raced :: db where
  "db_raced =
     snd (storeEvent_after ''e2'' 11 db_canvas db_first ''c1'' ''u2'' ''SHAPE_CREATED'' (Some ''s2'')
            circle_payload)"

text \<open>
  The rectangle \<open>s1\<close> created a second time, as a circle: on its canvas \<open>c1\<close>, and on
  another canvas \<open>c2\<close>.
\<close>

definition db_retyped :: db where
  "db_retyped =
     snd (storeEvent ''e2'' 20 db_created ''c1'' ''u1'' ''SHAPE_CREATED'' (Some ''s1'') circle_payload)"

definition db_crossed :: db where
  "db_crossed =
     snd (storeEvent ''e2'' 20 (snd (getOrCreateCanvas 15 db_created ''c2'' ''Untitled Canvas''))
            ''c2'' ''u2'' ''SHAPE_CREATED'' (Some ''s1'') circle_payload)"

section \<open>The projection rules of the specification\<close>

text \<open>
  The shape of the specification's data model, without its creation and update times,
  and the table of section 4.D.1 in the specification's words, on the payloads of section
  4.A: \<open>SHAPE_CREATED\<close> with \<open>{type, properties, zIndex}\<close> upserts (sets \<open>type\<close>, \<open>properties\<close>
  and \<open>zIndex\<close>, clears \<open>deletedAt\<close>); \<open>SHAPE_EDITED\<close> merges \<open>payload.properties\<close> shallowly;
  \<open>SHAPE_MOVED\<close> patches \<open>x\<close> and \<open>y\<close> from \<open>payload.position\<close>; \<open>DRAG_END\<close> patches them from
  \<open>endPosition\<close> if it is present; \<open>SHAPE_DELETED\<close> sets \<open>deletedAt\<close>; the four audit kinds
  have no effect. An event the table and those payloads do not cover has no rule
  (\<open>None\<close>).
\<close>

record spec_shape =
  sp_id :: uuid
  sp_type :: string
  sp_properties :: object
  sp_zIndex :: int
  sp_deletedAt :: "int option"

definition patch_shape :: "uuid \<Rightarrow> (spec_shape \<Rightarrow> spec_shape) \<Rightarrow> spec_shape list \<Rightarrow> spec_shape list" where
  "patch_shape sid f st = map (\<lambda>s. if sp_id s = sid then f s else s) st"

definition spec_xy :: "json option \<Rightarrow> (json \<times> json) option" where
  "spec_xy position =
     (case position of
        Some (JObj pos) \<Rightarrow>
          (case map_of pos ''x'' of
             None \<Rightarrow> None
           | Some x \<Rightarrow> (case map_of pos ''y'' of None \<Rightarrow> None | Some y \<Rightarrow> Some (x, y)))
      | _ \<Rightarrow> None)"

definition spec_patch_xy :: "uuid \<Rightarrow> json \<times> json \<Rightarrow> spec_shape list \<Rightarrow> spec_shape list" where
  "spec_patch_xy sid xy st =
     patch_shape sid
       (\<lambda>s. s\<lparr>sp_properties :=
                AList.update ''y'' (snd xy) (AList.update ''x'' (fst xy) (sp_properties s))\<rparr>) st"

definition spec_rule :: "spec_shape list \<Rightarrow> event_row \<Rightarrow> spec_shape list option" where
  "spec_rule st ev =
     (if e_event_type ev \<in> {''POINTER_DOWN'', ''DRAG_START'', ''USER_CONNECTED'', ''USER_DISCONNECTED''}
      then Some st
      else
        (case e_shape_id ev of
           None \<Rightarrow> None
         | Some sid \<Rightarrow>
             if e_event_type ev = ''SHAPE_CREATED'' then
               (case map_of (e_payload ev) ''type'' of
                  Some (JStr ty) \<Rightarrow>
                    (case map_of (e_payload ev) ''properties'' of
                       Some (JObj props) \<Rightarrow>
                         (case map_of (e_payload ev) ''zIndex'' of
                            Some (JNum z) \<Rightarrow>
                              Some (if \<exists>s \<in> set st. sp_id s = sid
                                    then patch_shape sid
                                           (\<lambda>s. s\<lparr>sp_type := ty, sp_properties := props,
                                                  sp_zIndex := z, sp_deletedAt := None\<rparr>) st
                                    else st @ [\<lparr>sp_id = sid, sp_type = ty, sp_properties = props,
                                                sp_zIndex = z, sp_deletedAt = None\<rparr>])
                          | _ \<Rightarrow> None)
                     | _ \<Rightarrow> None)
                | _ \<Rightarrow> None)
             else if e_event_type ev = ''SHAPE_EDITED'' then
               (case map_of (e_payload ev) ''properties'' of
                  Some (JObj props) \<Rightarrow>
                    Some (patch_shape sid
                            (\<lambda>s. s\<lparr>sp_properties := assign (sp_properties s) props\<rparr>) st)
                | _ \<Rightarrow> None)
             else if e_event_type ev = ''SHAPE_MOVED'' then
               (case spec_xy (map_of (e_payload ev) ''position'') of
                  None \<Rightarrow> None
                | Some xy \<Rightarrow> Some (spec_patch_xy sid xy st))
             else if e_event_type ev = ''DRAG_END'' then
               (case map_of (e_payload ev) ''endPosition'' of
                  None \<Rightarrow> Some st
                | Some endPosition \<Rightarrow>
                    (case spec_xy (Some endPosition) of
                       None \<Rightarrow> None
                     | Some xy \<Rightarrow> Some (spec_patch_xy sid xy st)))
             else if e_event_type ev = ''SHAPE_DELETED'' then
               Some (patch_shape sid (\<lambda>s. s\<lparr>sp_deletedAt := Some (e_created_at ev)\<rparr>) st)
             else None))"

text \<open>
  The left fold of the rules over the events of a canvas, and the shapes the specification
  expects \<open>getCanvasState\<close> to show: those of the fold that are not deleted.
\<close>

fun spec_fold :: "spec_shape list \<Rightarrow> event_row list \<Rightarrow> spec_shape list option" where
  "spec_fold st [] = Some st"
| "spec_fold st (ev # evs) = (case spec_rule st ev of None \<Rightarrow> None | Some st' \<Rightarrow> spec_fold st' evs)"

definition spec_live_shapes :: "event_row list \<Rightarrow> spec_shape list option" where
  "spec_live_shapes evs = map_option (filter (\<lambda>s. sp_deletedAt s = None)) (spec_fold [] evs)"

section \<open>The conflict resolver of the client\<close>

text \<open>
  A vector clock is the object \<open>this.clock\<close>: node ids with integer counters. The counter
  of a node is \<open>this.clock[nodeId] || 0\<close>: 0 for a node the clock does not hold, unless the
  id is the name of a member of \<open>Object.prototype\<close>, which is then what is read.
\<close>

type_synonym clock = "(string \<times> int) list"

definition vc_get :: "clock \<Rightarrow> string \<Rightarrow> operand" where
  "vc_get c nodeId =
     (case js_get c nodeId of Undefined \<Rightarrow> Number 0 | Own v \<Rightarrow> Number v | Inherited \<Rightarrow> Member)"

text \<open>
  \<open>increment\<close>: \<open>(this.clock[nodeId] || 0) + 1\<close>. Added to a member, 1 makes a string, which
  is no counter. There, and wherever else a value would be stored that is not a number in
  a clock or not JSON in a shape, the model gives no answer (\<open>None\<close>).
\<close>

definition increment :: "clock \<Rightarrow> string \<Rightarrow> clock option" where
  "increment c nodeId =
     (case vc_get c nodeId of
        Number v \<Rightarrow> Some (AList.update nodeId (v + 1) c)
      | Member \<Rightarrow> None)"

text \<open>\<open>new Set([...xs])\<close>: the elements in the order of their first occurrence.\<close>

definition Set_of :: "string list \<Rightarrow> string list" where
  "Set_of xs = rev (remdups (rev xs))"

definition allNodes :: "clock \<Rightarrow> clock \<Rightarrow> string list" where
  "allNodes this other = Set_of (map fst this @ map fst other)"

text \<open>\<open>merge\<close>: \<open>Math.max\<close> of the two counters of every node; of a member it is \<open>NaN\<close>.\<close>

fun merge_loop :: "clock \<Rightarrow> string list \<Rightarrow> clock \<Rightarrow> clock option" where
  "merge_loop other [] c = Some c"
| "merge_loop other (nodeId # rest) c =
     (case vc_get c nodeId of
        Member \<Rightarrow> None
      | Number a \<Rightarrow>
          (case vc_get other nodeId of
             Member \<Rightarrow> None
           | Number b \<Rightarrow> merge_loop other rest (AList.update nodeId (max a b) c)))"

definition vc_merge :: "clock \<Rightarrow> clock \<Rightarrow> clock option" where
  "vc_merge this other = merge_loop other (allNodes this other) this"

text \<open>The loop of \<open>happenedBefore\<close>, with its early \<open>return false\<close>.\<close>

fun happenedBefore_loop :: "clock \<Rightarrow> clock \<Rightarrow> string list \<Rightarrow> bool \<Rightarrow> bool" where
  "happenedBefore_loop this other [] atLeastOneLess = atLeastOneLess"
| "happenedBefore_loop this other (nodeId # rest) atLeastOneLess =
     (let thisVal = vc_get this nodeId; otherVal = vc_get other nodeId
      in if gt thisVal otherVal then False
         else happenedBefore_loop this other rest
                (if lt thisVal otherVal then True else atLeastOneLess))"

definition happenedBefore :: "clock \<Rightarrow> clock \<Rightarrow> bool" where
  "happenedBefore this other = happenedBefore_loop this other (allNodes this other) False"

definition isConcurrent :: "clock \<Rightarrow> clock \<Rightarrow> bool" where
  "isConcurrent this other = (\<not> happenedBefore this other \<and> \<not> happenedBefore other this)"

text \<open>
  \<open>happensBefore\<close> in the words of section 4.B of the specification, on sparse clocks
  whose absent keys read as 0: every counter of the one is at most that of the other, and
  one is less. Beyond the nodes of the two clocks both read 0.
\<close>

definition sparse :: "clock \<Rightarrow> string \<Rightarrow> int" where
  "sparse c n = (case map_of c n of None \<Rightarrow> 0 | Some v \<Rightarrow> v)"

definition spec_happensBefore :: "clock \<Rightarrow> clock \<Rightarrow> bool" where
  "spec_happensBefore a b =
     ((\<forall>n \<in> set (allNodes a b). sparse a n \<le> sparse b n)
      \<and> (\<exists>n \<in> set (allNodes a b). sparse a n < sparse b n))"

text \<open>
  \<open>mergeShapeProperties\<close>. The property timestamps are objects of numbers, read as
  \<open>timestamps[key] || 0\<close>; \<open>localProps\<close> and \<open>remoteProps\<close> may be \<open>undefined\<close>, and are read
  as \<open>props?.[key]\<close>. The value chosen for a key is assigned to \<open>merged[key]\<close>.
\<close>

type_synonym timestamps = "(string \<times> int) list"

definition ts_get :: "timestamps \<Rightarrow> string \<Rightarrow> operand" where
  "ts_get t key =
     (case js_get t key of Undefined \<Rightarrow> Number 0 | Own v \<Rightarrow> Number v | Inherited \<Rightarrow> Member)"

definition keys_of :: "object option \<Rightarrow> string list" where
  "keys_of props = (case props of None \<Rightarrow> [] | Some ps \<Rightarrow> map fst ps)"

definition value_of :: "object option \<Rightarrow> string \<Rightarrow> json lookup" where
  "value_of props key = (case props of None \<Rightarrow> Undefined | Some ps \<Rightarrow> js_get ps key)"

definition chosen_value :: "json lookup \<Rightarrow> json lookup \<Rightarrow> operand \<Rightarrow> operand \<Rightarrow> json lookup" where
  "chosen_value localVal remoteVal localTime remoteTime =
     (if localVal \<noteq> Undefined \<and> remoteVal = Undefined then localVal
      else if remoteVal \<noteq> Undefined \<and> localVal = Undefined then remoteVal
      else if localVal \<noteq> Undefined \<and> remoteVal \<noteq> Undefined then
        (if gt localTime remoteTime then localVal else remoteVal)
      else Undefined)"

fun merge_keys :: "object option \<Rightarrow> object option \<Rightarrow> timestamps \<Rightarrow> timestamps \<Rightarrow> string list \<Rightarrow> object \<Rightarrow> object option" where
  "merge_keys localProps remoteProps localTimestamps remoteTimestamps [] merged = Some merged"
| "merge_keys localProps remoteProps localTimestamps remoteTimestamps (key # rest) merged =
     (case chosen_value (value_of localProps key) (value_of remoteProps key)
             (ts_get localTimestamps key) (ts_get remoteTimestamps key) of
        Undefined \<Rightarrow> merge_keys localProps remoteProps localTimestamps remoteTimestamps rest merged
      | Own v \<Rightarrow>
          merge_keys localProps remoteProps localTimestamps remoteTimestamps rest
            (js_set key v merged)
      | Inherited \<Rightarrow>
          if key = ''__proto__'' \<and> map_of merged key = None
          then merge_keys localProps remoteProps localTimestamps remoteTimestamps rest merged
          else None)"

definition mergeShapeProperties :: "object \<Rightarrow> object option \<Rightarrow> object option \<Rightarrow> timestamps \<Rightarrow> timestamps \<Rightarrow> object option" where
  "mergeShapeProperties baseProps localProps remoteProps localTimestamps remoteTimestamps =
     merge_keys localProps remoteProps localTimestamps remoteTimestamps
       (Set_of (keys_of localProps @ keys_of remoteProps)) baseProps"

text \<open>
  The \<open>ConflictResolver\<close>: the user, the vector clock, and the \<open>Map\<close> from a shape id to the
  timestamps of its properties. \<open>recordLocalOperation\<close> is given the value of \<open>Date.now()\<close>.
\<close>

record resolver =
  cr_userId :: string
  cr_vectorClock :: clock
  cr_propertyTimestamps :: "(uuid \<times> timestamps) list"

definition new_ConflictResolver :: "string \<Rightarrow> resolver" where
  "new_ConflictResolver user = \<lparr>cr_userId = user, cr_vectorClock = [], cr_propertyTimestamps = []\<rparr>"

record clock_info =
  ci_vectorClock :: clock
  ci_propertyTimestamps :: timestamps

definition recordLocalOperation :: "int \<Rightarrow> resolver \<Rightarrow> uuid \<Rightarrow> object \<Rightarrow> (clock_info \<times> resolver) option" where
  "recordLocalOperation now r shapeId properties =
     (case increment (cr_vectorClock r) (cr_userId r) of
        None \<Rightarrow> None
      | Some vc \<Rightarrow>
          (let old = (case map_of (cr_propertyTimestamps r) shapeId of None \<Rightarrow> [] | Some t \<Rightarrow> t);
               ts = fold (\<lambda>key t. js_set key now t) (map fst properties) old
           in Some (\<lparr>ci_vectorClock = vc, ci_propertyTimestamps = ts\<rparr>,
                    r\<lparr>cr_vectorClock := vc,
                      cr_propertyTimestamps := AList.update shapeId ts (cr_propertyTimestamps r)\<rparr>)))"

datatype action = KEEP_LOCAL | APPLY_REMOTE | MERGE

text \<open>
  A remote event as \<open>resolveConflict\<close> reads it: \<open>remoteEvent.vectorClock\<close>,
  \<open>remoteEvent.propertyTimestamps\<close> and \<open>remoteEvent.payload.properties\<close>, each of which
  may be \<open>undefined\<close>.
\<close>

record remote_event =
  re_vectorClock :: "clock option"
  re_propertyTimestamps :: "timestamps option"
  re_properties :: "object option"

record resolution =
  res_action :: action
  res_shape :: "object option"

definition remoteClock_of :: "remote_event \<Rightarrow> clock" where
  "remoteClock_of remoteEvent = (case re_vectorClock remoteEvent of None \<Rightarrow> [] | Some c \<Rightarrow> c)"

definition localTimestamps_of :: "resolver \<Rightarrow> uuid \<Rightarrow> timestamps" where
  "localTimestamps_of r shapeId =
     (case map_of (cr_propertyTimestamps r) shapeId of None \<Rightarrow> [] | Some t \<Rightarrow> t)"

definition remoteTimestamps_of :: "remote_event \<Rightarrow> timestamps" where
  "remoteTimestamps_of remoteEvent =
     (case re_propertyTimestamps remoteEvent of None \<Rightarrow> [] | Some t \<Rightarrow> t)"

definition resolveConflict :: "resolver \<Rightarrow> uuid \<Rightarrow> object \<Rightarrow> remote_event \<Rightarrow> (resolution \<times> resolver) option" where
  "resolveConflict r shapeId localShape remoteEvent =
     (let remoteClock = remoteClock_of remoteEvent
      in if happenedBefore remoteClock (cr_vectorClock r) then
           Some (\<lparr>res_action = KEEP_LOCAL, res_shape = Some localShape\<rparr>, r)
         else if happenedBefore (cr_vectorClock r) remoteClock then
           Some (\<lparr>res_action = APPLY_REMOTE, res_shape = re_properties remoteEvent\<rparr>, r)
         else
           (case mergeShapeProperties localShape (Some localShape) (re_properties remoteEvent)
                   (localTimestamps_of r shapeId) (remoteTimestamps_of remoteEvent) of
              None \<Rightarrow> None
            | Some merged \<Rightarrow>
                (case vc_merge (cr_vectorClock r) remoteClock of
                   None \<Rightarrow> None
                 | Some vc \<Rightarrow>
                     Some (\<lparr>res_action = MERGE, res_shape = Some merged\<rparr>,
                           r\<lparr>cr_vectorClock := vc\<rparr>))))"

text \<open>
  \<open>Object.assign(target, source)\<close> assigns every property of the source to the target.
  For the key \<open>__proto__\<close> on a target that does not hold it itself the assignment runs
  the inherited setter: a number, a string or a boolean is ignored; an object, an array or
  \<open>null\<close> becomes the prototype of the target, and for what the target inherits from then
  on the model gives no answer.
\<close>

fun Object_assign :: "object \<Rightarrow> object \<Rightarrow> object option" where
  "Object_assign target [] = Some target"
| "Object_assign target ((key, v) # rest) =
     (if key = ''__proto__'' \<and> map_of target key = None
      then (case v of
              JObj ps \<Rightarrow> None
            | JArr xs \<Rightarrow> None
            | JNull \<Rightarrow> None
            | _ \<Rightarrow> Object_assign target rest)
      else Object_assign (AList.update key v target) rest)"

text \<open>
  How the canvas store of the client uses the resolver on one shape: \<open>updateShape\<close>
  assigns the edited properties and records the operation; \<open>applyRemoteEvent\<close> resolves
  a remote \<open>SHAPE_EDITED\<close> for an existing shape, \<open>handleRemoteEvent\<close> merges the remote clock
  if the event has one, and \<open>resolution.shape\<close> is assigned unless the action is
  \<open>KEEP_LOCAL\<close>.
\<close>

record replica =
  rp_shape :: object
  rp_resolver :: resolver

definition updateShape :: "int \<Rightarrow> uuid \<Rightarrow> object \<Rightarrow> replica \<Rightarrow> (remote_event \<times> replica) option" where
  "updateShape now shapeId properties rp =
     (case Object_assign (rp_shape rp) properties of
        None \<Rightarrow> None
      | Some shape \<Rightarrow>
          (case recordLocalOperation now (rp_resolver rp) shapeId properties of
             None \<Rightarrow> None
           | Some (info, r) \<Rightarrow>
               Some (\<lparr>re_vectorClock = Some (ci_vectorClock info),
                      re_propertyTimestamps = Some (ci_propertyTimestamps info),
                      re_properties = Some properties\<rparr>,
                     \<lparr>rp_shape = shape, rp_resolver = r\<rparr>)))"

definition updateFromRemote :: "remote_event \<Rightarrow> resolver \<Rightarrow> resolver option" where
  "updateFromRemote ev r =
     (case re_vectorClock ev of
        None \<Rightarrow> Some r
      | Some c \<Rightarrow>
          (case vc_merge (cr_vectorClock r) c of
             None \<Rightarrow> None
           | Some vc \<Rightarrow> Some (r\<lparr>cr_vectorClock := vc\<rparr>)))"

definition applyRemoteEvent :: "uuid \<Rightarrow> remote_event \<Rightarrow> replica \<Rightarrow> replica option" where
  "applyRemoteEvent shapeId ev rp =
     (case resolveConflict (rp_resolver rp) shapeId (rp_shape rp) ev of
        None \<Rightarrow> None
      | Some (res, r) \<Rightarrow>
          (case updateFromRemote ev r of
             None \<Rightarrow> None
           | Some r' \<Rightarrow>
               (case (if res_action res = KEEP_LOCAL then Some (rp_shape rp)
                      else Object_assign (rp_shape rp)
                             (case res_shape res of None \<Rightarrow> [] | Some ps \<Rightarrow> ps)) of
                  None \<Rightarrow> None
                | Some shape \<Rightarrow> Some \<lparr>rp_shape = shape, rp_resolver = r'\<rparr>)))"

text \<open>
  Two users edit the shape \<open>s1\<close> from the same base: \<open>A\<close> sets \<open>strokeColor\<close> at time 1000,
  \<open>B\<close> sets \<open>strokeWidth\<close> at time 1001, each on a new resolver.
\<close>

definition base_shape :: object where
  "base_shape = [(''strokeColor'', JStr ''#000''), (''strokeWidth'', JNum 2)]"

definition replica_A :: replica where
  "replica_A = \<lparr>rp_shape = base_shape, rp_resolver = new_ConflictResolver ''A''\<rparr>"

definition replica_B :: replica where
  "replica_B = \<lparr>rp_shape = base_shape, rp_resolver = new_ConflictResolver ''B''\<rparr>"

definition edit_A :: object where
  "edit_A = [(''strokeColor'', JStr ''#f00'')]"

definition edit_B :: object where
  "edit_B = [(''strokeWidth'', JNum 5)]"

text \<open>
  The same two edits when \<open>A\<close>'s clock runs ahead: \<open>A\<close> had set \<open>strokeWidth\<close> to 2 at its
  time 2000, \<open>B\<close> had received that edit, and both hold \<open>base_shape\<close>; then \<open>A\<close> sets
  \<open>strokeColor\<close> at its time 2500 and \<open>B\<close> sets \<open>strokeWidth\<close> at its time 1001.
\<close>

definition earlier_shape :: object where
  "earlier_shape = [(''strokeColor'', JStr ''#000''), (''strokeWidth'', JNum 1)]"

definition ahead_A :: replica where
  "ahead_A =
     \<lparr>rp_shape = base_shape,
      rp_resolver = \<lparr>cr_userId = ''A'', cr_vectorClock = [(''A'', 1)],
                     cr_propertyTimestamps = [(''s1'', [(''strokeWidth'', 2000)])]\<rparr>\<rparr>"

definition behind_B :: replica where
  "behind_B =
     \<lparr>rp_shape = base_shape,
      rp_resolver = \<lparr>cr_userId = ''B'', cr_vectorClock = [(''A'', 1)],
                     cr_propertyTimestamps = []\<rparr>\<rparr>"






text \<open>
  The resolver of \<open>A\<close> after its edit, with the shape it then holds, and three remote
  events for it: one without a clock, one from a later state of \<open>A\<close>'s own clock, and the
  edit of \<open>B\<close>.
\<close>

definition resolver_A :: resolver where
  "resolver_A =
     \<lparr>cr_userId = ''A'', cr_vectorClock = [(''A'', 1)],
      cr_propertyTimestamps = [(''s1'', [(''strokeColor'', 1000)])]\<rparr>"

definition shape_A :: object where
  "shape_A = [(''strokeColor'', JStr ''#f00''), (''strokeWidth'', JNum 2)]"

definition concurrent_event :: remote_event where
  "concurrent_event =
     \<lparr>re_vectorClock = Some [(''B'', 1)], re_propertyTimestamps = Some [(''strokeWidth'', 1001)],
      re_properties = Some [(''strokeWidth'', JNum 5)]\<rparr>"

text \<open>
  A replica of user \<open>A\<close> that has made no edit yet, and a remote event of user \<open>B\<close> that
  sets the property \<open>key\<close> to \<open>theirs\<close> and carries no property timestamps.
\<close>

definition fresh_A :: replica where
  "fresh_A = \<lparr>rp_shape = [(''id'', JStr ''s1'')], rp_resolver = new_ConflictResolver ''A''\<rparr>"

definition relabel :: "string \<Rightarrow> remote_event" where
  "relabel key =
     \<lparr>re_vectorClock = Some [(''B'', 1)], re_propertyTimestamps = None,
      re_properties = Some [(key, JStr ''theirs'')]\<rparr>"

section \<open>websocketManager.js\<close>

text \<open>
  A socket is known by a number. The manager holds the rooms (a \<open>Set\<close> of sockets per
  canvas, kept as a list without repetition) and the connection infos; the network holds
  each socket's \<open>readyState\<close> and the messages written to it so far.
\<close>

type_synonym ws = nat

datatype ready_state = CONNECTING | OPEN | CLOSING | CLOSED

record conn_info =
  cn_id :: uuid
  cn_userId :: string
  cn_canvasId :: "uuid option"
  cn_username :: "string option"
  cn_isAlive :: bool

record manager =
  canvasRooms :: "uuid \<Rightarrow> ws list option"
  connections :: "ws \<Rightarrow> conn_info option"

record ack_entry =
  ak_localEventId :: "json option"
  ak_eventId :: "uuid option"
  ak_version :: nat
  ak_hadConflict :: "bool option"

record shape_event =
  sv_eventId :: "uuid option"
  sv_eventType :: string
  sv_shapeId :: "uuid option"
  sv_payload :: object
  sv_userId :: string
  sv_username :: "string option"
  sv_version :: nat
  sv_stored :: "bool option"
  sv_vectorClock :: "json option"
  sv_propertyTimestamps :: "json option"

datatype message =
    EVENT_ACK "json option" "uuid option" nat "bool option" "bool option"
  | SHAPE_EVENT shape_event
  | BATCH_SYNC_RESULT "ack_entry list" "event_row list" canvas_state "batch_conflict list"
  | BATCH_SYNC_FAILED string
  | ERROR string

record net =
  readyState :: "ws \<Rightarrow> ready_state"
  sent :: "ws \<Rightarrow> message list"

definition send :: "ws \<Rightarrow> message \<Rightarrow> net \<Rightarrow> net" where
  "send w msg n = (if readyState n w = OPEN then n\<lparr>sent := (sent n)(w := sent n w @ [msg])\<rparr> else n)"

definition sendError :: "ws \<Rightarrow> string \<Rightarrow> net \<Rightarrow> net" where
  "sendError w err n = send w (ERROR err) n"

definition broadcastToCanvas :: "manager \<Rightarrow> uuid \<Rightarrow> message \<Rightarrow> ws option \<Rightarrow> net \<Rightarrow> net" where
  "broadcastToCanvas m cid msg excludeWs n =
     (case canvasRooms m cid of
        None \<Rightarrow> n
      | Some room \<Rightarrow> fold (\<lambda>w n'. if Some w \<noteq> excludeWs then send w msg n' else n') room n)"

record shape_event_request =
  rq_localEventId :: "json option"
  rq_eventType :: string
  rq_shapeId :: "uuid option"
  rq_payload :: object

text \<open>The \<open>SHAPE_EVENT\<close> message that \<open>handleShapeEvent\<close> broadcasts for a stored event.\<close>

definition broadcast_of :: "conn_info \<Rightarrow> shape_event_request \<Rightarrow> stored_event \<Rightarrow> message" where
  "broadcast_of connInfo msg r =
     SHAPE_EVENT
       \<lparr>sv_eventId = se_eventId r, sv_eventType = rq_eventType msg, sv_shapeId = rq_shapeId msg,
        sv_payload = se_payload r, sv_userId = cn_userId connInfo,
        sv_username = cn_username connInfo, sv_version = se_version r, sv_stored = se_stored r,
        sv_vectorClock = map_of (rq_payload msg) ''vectorClock'',
        sv_propertyTimestamps = map_of (rq_payload msg) ''propertyTimestamps''\<rparr>"

text \<open>
  \<open>handleShapeEvent\<close> runs in two parts. The first checks \<open>connInfo.canvasId\<close> and calls
  \<open>storeEvent\<close> with it. The second runs when the store has returned; the handlers of
  other messages may have run in between, so it is given the manager, the connection info
  (the same object, as a \<open>LEAVE_CANVAS\<close>, a \<open>JOIN_CANVAS\<close> or a close of the socket has left
  it) and the network as they are by then. It writes the acknowledgement and broadcasts to
  the canvas that \<open>connInfo.canvasId\<close> names at that time; \<open>null\<close> names no room.
\<close>

definition handleShapeEvent_resume :: "manager \<Rightarrow> ws \<Rightarrow> conn_info \<Rightarrow> shape_event_request \<Rightarrow> error + stored_event \<Rightarrow> net \<Rightarrow> net" where
  "handleShapeEvent_resume m w connInfo msg result n =
     (case result of
        Inl e \<Rightarrow> sendError w ''Failed to process event'' n
      | Inr storedEvent \<Rightarrow>
          (let acked = send w (EVENT_ACK (rq_localEventId msg) (se_eventId storedEvent)
                                 (se_version storedEvent) (se_stored storedEvent)
                                 (se_hadConflict storedEvent)) n
           in case cn_canvasId connInfo of
                None \<Rightarrow> acked
              | Some cid \<Rightarrow>
                  broadcastToCanvas m cid (broadcast_of connInfo msg storedEvent) (Some w) acked))"

definition handleShapeEvent :: "uuid \<Rightarrow> int \<Rightarrow> ws \<Rightarrow> conn_info \<Rightarrow> shape_event_request \<Rightarrow> net \<times> db \<Rightarrow> manager \<times> conn_info \<times> net \<Rightarrow> net \<times> db" where
  "handleShapeEvent newId now w connInfo msg st later =
     (case st of (n, d) \<Rightarrow>
        (case cn_canvasId connInfo of
           None \<Rightarrow> (sendError w ''Not joined to any canvas'' n, d)
         | Some cid \<Rightarrow>
             (case storeEvent newId now d cid (cn_userId connInfo) (rq_eventType msg)
                     (rq_shapeId msg) (rq_payload msg) of
                (result, d') \<Rightarrow>
                  (case later of (m', connInfo', n') \<Rightarrow>
                     (handleShapeEvent_resume m' w connInfo' msg result n', d')))))"

text \<open>
  \<open>handleBatchSync\<close>, as it runs when no other handler changes the connection info between
  its steps. Each entry of \<open>storedEvents\<close> in the reply takes its \<open>localEventId\<close>
  from \<open>events.find(le => le.shapeId === e.shapeId && le.eventType === e.eventType)\<close>. The
  \<open>currentState\<close> of the reply is made by \<open>getCanvasState\<close> of the rows \<open>rows\<close> that its
  query of the shapes returns.
\<close>

definition batch_ack :: "batch_event list \<Rightarrow> stored_event \<Rightarrow> ack_entry" where
  "batch_ack evs e =
     \<lparr>ak_localEventId =
        (case find (\<lambda>le. b_shapeId le = se_shapeId e \<and> b_eventType le = se_eventType e) evs of
           None \<Rightarrow> None
         | Some le \<Rightarrow> b_localEventId le),
      ak_eventId = se_eventId e,
      ak_version = se_version e,
      ak_hadConflict = se_hadConflict e\<rparr>"

definition handleBatchSync :: "manager \<Rightarrow> (nat \<Rightarrow> uuid) \<Rightarrow> int \<Rightarrow> ws \<Rightarrow> conn_info \<Rightarrow> batch_event list \<Rightarrow> nat \<Rightarrow> shape_row list \<Rightarrow> net \<times> db \<Rightarrow> net \<times> db" where
  "handleBatchSync m newIds now w connInfo evs lastKnownVersion rows st =
     (case st of (n, d) \<Rightarrow>
        (case cn_canvasId connInfo of
           None \<Rightarrow> (sendError w ''Not joined to any canvas'' n, d)
         | Some cid \<Rightarrow>
             (let missedEvents = getEventsSinceVersion d cid lastKnownVersion
              in case storeBatchEvents newIds now d cid
                        (map (\<lambda>e. e\<lparr>b_userId := cn_userId connInfo\<rparr>) evs) of
                   (Inl e, d') \<Rightarrow> (send w (BATCH_SYNC_FAILED ''Failed to sync events'') n, d')
                 | (Inr (storedEvents, conflicts), d') \<Rightarrow>
                     (fold (\<lambda>ev n'.
                              broadcastToCanvas m cid
                                (SHAPE_EVENT
                                   \<lparr>sv_eventId = se_eventId ev,
                                    sv_eventType = se_eventType ev,
                                    sv_shapeId = se_shapeId ev,
                                    sv_payload = se_payload ev,
                                    sv_userId = cn_userId connInfo,
                                    sv_username = cn_username connInfo,
                                    sv_version = se_version ev,
                                    sv_stored = None,
                                    sv_vectorClock = map_of (se_payload ev) ''vectorClock'',
                                    sv_propertyTimestamps =
                                      map_of (se_payload ev) ''propertyTimestamps''\<rparr>)
                                (Some w) n')
                        storedEvents
                        (send w
                           (BATCH_SYNC_RESULT (map (batch_ack evs) storedEvents) missedEvents
                              (getCanvasState d' cid rows) conflicts) n),
                      d'))))"

text \<open>
  A room of three sockets on canvas \<open>c1\<close>: socket 1 sends, socket 2 is open, socket 3 is
  closing and still in the room; and the sender's connection info after it has left the
  canvas.
\<close>

definition room_manager :: manager where
  "room_manager =
     \<lparr>canvasRooms = (\<lambda>c. if c = ''c1'' then Some [1, 2, 3] else None),
      connections = (\<lambda>w. None)\<rparr>"

definition sender_info :: conn_info where
  "sender_info =
     \<lparr>cn_id = ''k1'', cn_userId = ''u1'', cn_canvasId = Some ''c1'', cn_username = Some ''Ann'',
      cn_isAlive = True\<rparr>"

definition sender_gone :: conn_info where
  "sender_gone =
     \<lparr>cn_id = ''k1'', cn_userId = ''u1'', cn_canvasId = None, cn_username = Some ''Ann'',
      cn_isAlive = True\<rparr>"

definition quiet_net :: net where
  "quiet_net = \<lparr>readyState = (\<lambda>w. if w = 3 then CLOSING else OPEN), sent = (\<lambda>w. [])\<rparr>"

text \<open>The network a little later: socket 2 has been written a message in between.\<close>

definition later_net :: net where
  "later_net =
     \<lparr>readyState = (\<lambda>w. if w = 3 then CLOSING else OPEN),
      sent = (\<lambda>w. if w = 2 then [ERROR ''Unknown message type: PING''] else [])\<rparr>"

definition move_request :: shape_event_request where
  "move_request =
     \<lparr>rq_localEventId = Some (JStr ''l1''), rq_eventType = ''SHAPE_MOVED'',
      rq_shapeId = Some ''s1'',
      rq_payload = [(''position'', JObj [(''x'', JNum 100), (''y'', JNum 200)])]\<rparr>"

text \<open>A batch of two edits of the same shape, with the local event ids \<open>l1\<close> and \<open>l2\<close>.\<close>

definition two_edits :: "batch_event list" where
  "two_edits =
     [\<lparr>b_localEventId = Some (JStr ''l1''), b_userId = ''u1'', b_eventType = ''SHAPE_EDITED'',
       b_shapeId = Some ''s1'', b_payload = [(''properties'', JObj [(''strokeWidth'', JNum 3)])]\<rparr>,
      \<lparr>b_localEventId = Some (JStr ''l2''), b_userId = ''u1'', b_eventType = ''SHAPE_EDITED'',
       b_shapeId = Some ''s1'', b_payload = [(''properties'', JObj [(''strokeWidth'', JNum 4)])]\<rparr>]"

definition batch_ids :: "nat \<Rightarrow> uuid" where
  "batch_ids k = (if k = 0 then ''e2'' else ''e3'')"

text \<open>
  The \<open>localEventId\<close> of the first event of a batch with a given shape id and kind.
\<close>

definition first_match :: "batch_event list \<Rightarrow> uuid option \<Rightarrow> string \<Rightarrow> json option" where
  "first_match evs sid etype =
     (case find (\<lambda>le. b_shapeId le = sid \<and> b_eventType le = etype) evs of
        None \<Rightarrow> None
      | Some le \<Rightarrow> b_localEventId le)"


section \<open>Properties of the event store\<close>

lemmas store_defs = storeEvent_def storeEvent_after_def store_in_transaction_def store_reads_def
  store_writes_def detectConflict_def
  clientTimestamp_of_def clientProperties_of_def clientTimestamps_of_def
  EventStore_resolveConflict_def mergeProperties_def timestamp_of_def insert_event_def
  applyEvent_def getCurrentVersion_def touch_canvas_def getOrCreateCanvas_def empty_db_def
  shouldStoreEvent_def STORED_EVENT_TYPES_def or_else_def update_shapes_def targets_def
  set_position_def concat_properties_def assign_def Let_def versions_of_def
  storeBatchEvents_def getCanvasState_def getEventsSinceVersion_def shape_json_def
  js_get_def js_set_def Object_prototype_def

lemma db_canvas_eq:
  "db_canvas =
     \<lparr>canvases = [\<lparr>c_id = ''c1'', c_name = ''Untitled Canvas'', c_created_at = 0,
                    c_updated_at = 0\<rparr>],
      shapes = [], events = []\<rparr>"
  by (simp add: db_canvas_def store_defs)

lemma db_created_eq:
  "db_created =
     \<lparr>canvases = [\<lparr>c_id = ''c1'', c_name = ''Untitled Canvas'', c_created_at = 0,
                    c_updated_at = 10\<rparr>],
      shapes = [\<lparr>s_id = ''s1'', s_canvas_id = ''c1'', s_type = ''rectangle'',
                  s_properties = [(''x'', JNum 10), (''y'', JNum 20), (''width'', JNum 30),
                                  (''height'', JNum 40), (''strokeColor'', JStr ''#000''),
                                  (''strokeWidth'', JNum 2), (''fillColor'', JStr ''transparent'')],
                  s_z_index = Some 0, s_created_at = 10, s_updated_at = 10,
                  s_deleted_at = None\<rparr>],
      events = [\<lparr>e_id = ''e1'', e_canvas_id = ''c1'', e_shape_id = Some ''s1'',
                  e_user_id = ''u1'', e_event_type = ''SHAPE_CREATED'',
                  e_payload = rectangle_payload, e_version = 1, e_created_at = 10\<rparr>]\<rparr>"
  by (simp add: db_created_def db_canvas_eq rectangle_payload_def store_defs)

lemma db_moved_eq:
  "db_moved =
     \<lparr>canvases = [\<lparr>c_id = ''c1'', c_name = ''Untitled Canvas'', c_created_at = 0,
                    c_updated_at = 5000\<rparr>],
      shapes = [\<lparr>s_id = ''s1'', s_canvas_id = ''c1'', s_type = ''rectangle'',
                  s_properties = [(''x'', JNum 100), (''y'', JNum 200), (''width'', JNum 30),
                                  (''height'', JNum 40), (''strokeColor'', JStr ''#000''),
                                  (''strokeWidth'', JNum 2), (''fillColor'', JStr ''transparent'')],
                  s_z_index = Some 0, s_created_at = 10, s_updated_at = 5000,
                  s_deleted_at = None\<rparr>],
      events = [\<lparr>e_id = ''e1'', e_canvas_id = ''c1'', e_shape_id = Some ''s1'',
                  e_user_id = ''u1'', e_event_type = ''SHAPE_CREATED'',
                  e_payload = rectangle_payload, e_version = 1, e_created_at = 10\<rparr>,
                \<lparr>e_id = ''e2'', e_canvas_id = ''c1'', e_shape_id = Some ''s1'',
                  e_user_id = ''u1'', e_event_type = ''SHAPE_MOVED'',
                  e_payload = [(''position'', JObj [(''x'', JNum 100), (''y'', JNum 200)])],
                  e_version = 2, e_created_at = 5000\<rparr>]\<rparr>"
  by (simp add: db_moved_def db_created_eq store_defs)

lemma db_deleted_eq:
  "db_deleted =
     \<lparr>canvases = [\<lparr>c_id = ''c1'', c_name = ''Untitled Canvas'', c_created_at = 0,
                    c_updated_at = 9000\<rparr>],
      shapes = [\<lparr>s_id = ''s1'', s_canvas_id = ''c1'', s_type = ''rectangle'',
                  s_properties = [(''x'', JNum 100), (''y'', JNum 200), (''width'', JNum 30),
                                  (''height'', JNum 40), (''strokeColor'', JStr ''#000''),
                                  (''strokeWidth'', JNum 2), (''fillColor'', JStr ''transparent'')],
                  s_z_index = Some 0, s_created_at = 10, s_updated_at = 9000,
                  s_deleted_at = Some 9000\<rparr>],
      events = [\<lparr>e_id = ''e1'', e_canvas_id = ''c1'', e_shape_id = Some ''s1'',
                  e_user_id = ''u1'', e_event_type = ''SHAPE_CREATED'',
                  e_payload = rectangle_payload, e_version = 1, e_created_at = 10\<rparr>,
                \<lparr>e_id = ''e2'', e_canvas_id = ''c1'', e_shape_id = Some ''s1'',
                  e_user_id = ''u1'', e_event_type = ''SHAPE_MOVED'',
                  e_payload = [(''position'', JObj [(''x'', JNum 100), (''y'', JNum 200)])],
                  e_version = 2, e_created_at = 5000\<rparr>,
                \<lparr>e_id = ''e3'', e_canvas_id = ''c1'', e_shape_id = Some ''s1'',
                  e_user_id = ''u1'', e_event_type = ''SHAPE_DELETED'',
                  e_payload = [], e_version = 3, e_created_at = 9000\<rparr>]\<rparr>"
  by (simp add: db_deleted_def db_moved_eq store_defs)


lemma getCurrentVersion_Max:
  "getCurrentVersion d cid = Max (insert 0 (e_version ` {e \<in> set (events d). e_canvas_id e = cid}))"
proof -
  have "getCurrentVersion d cid
          = Max (set (0 # map e_version (filter (\<lambda>e. e_canvas_id e = cid) (events d))))"
    unfolding getCurrentVersion_def by (rule Max.set_eq_fold [symmetric])
  also have "set (0 # map e_version (filter (\<lambda>e. e_canvas_id e = cid) (events d)))
               = insert 0 (e_version ` {e \<in> set (events d). e_canvas_id e = cid})"
    by auto
  finally show ?thesis .
qed

text \<open>
  C9. For an event kind that is not storable, \<open>storeEvent\<close> writes nothing: it returns
  \<open>eventId\<close> null, \<open>stored = false\<close> and the current greatest version of the canvas, that
  is the greatest of the versions of the canvas's events, or 0 when it has none; and the
  database (events, shapes and canvases) is the one it was given.
\<close>

theorem storeEvent_not_storable:
  assumes "\<not> shouldStoreEvent etype"
  shows "\<exists>r. storeEvent newId now d cid uid etype sid pl = (Inr r, d)
             \<and> se_eventId r = None
             \<and> se_version r = getCurrentVersion d cid
             \<and> se_version r = Max (insert 0 (e_version ` {e \<in> set (events d). e_canvas_id e = cid}))
             \<and> se_stored r = Some False"
  using assms getCurrentVersion_Max [of d cid] by (simp add: storeEvent_def)

theorem storeEvent_not_storable_witness:
  "\<not> shouldStoreEvent ''CURSOR_MOVE''
   \<and> map e_version (events db_moved) = [1, 2]
   \<and> (\<exists>r. storeEvent ''e3'' 6000 db_moved ''c1'' ''u1'' ''CURSOR_MOVE'' None [(''x'', JNum 1)]
             = (Inr r, db_moved)
          \<and> se_eventId r = None
          \<and> se_version r = 2
          \<and> se_stored r = Some False)"
proof -
  have h: "\<not> shouldStoreEvent ''CURSOR_MOVE''"
    by (simp add: shouldStoreEvent_def STORED_EVENT_TYPES_def)
  have v: "map e_version (events db_moved) = [1, 2]"
    by (simp add: db_moved_eq)
  have m: "Max (insert 0 (e_version ` {e \<in> set (events db_moved). e_canvas_id e = ''c1''})) = 2"
  proof -
    have "{e \<in> set (events db_moved). e_canvas_id e = ''c1''} = set (events db_moved)"
      by (auto simp: db_moved_eq)
    then have "e_version ` {e \<in> set (events db_moved). e_canvas_id e = ''c1''} = {1, 2}"
      using v by (metis image_set list.simps(15) empty_set)
    then show ?thesis by simp
  qed
  from storeEvent_not_storable [OF h, of "''e3''" 6000 db_moved "''c1''" "''u1''" None "[(''x'', JNum 1)]"] h v m
  show ?thesis by auto
qed

subsection \<open>Replays and conflicts in the store\<close>

lemma store_in_transaction_Inr:
  assumes "store_in_transaction newId now d cid uid etype sid pl = Inr (ev, k, d')"
  shows "detectConflict d cid sid pl = Inr k"
    and "(case k of None \<Rightarrow> Inr pl | Some c \<Rightarrow> EventStore_resolveConflict c pl) = Inr (se_payload ev)"
    and "se_eventId ev = Some newId \<and> se_version ev = getCurrentVersion d cid + 1
         \<and> se_canvasId ev = cid \<and> se_userId ev = uid \<and> se_eventType ev = etype
         \<and> se_shapeId ev = sid \<and> se_stored ev = Some True
         \<and> se_hadConflict ev = Some (k \<noteq> None)"
    and "events d' = events d @
           [\<lparr>e_id = newId, e_canvas_id = cid, e_shape_id = sid, e_user_id = uid,
             e_event_type = etype, e_payload = se_payload ev,
             e_version = getCurrentVersion d cid + 1, e_created_at = now\<rparr>]"
    and "canvases d' = canvases d"
    and "applyEvent now (d\<lparr>events := events d'\<rparr>) cid etype sid (se_payload ev) = Inr (shapes d')"
    and "\<exists>c \<in> set (canvases d). c_id c = cid"
  using assms
  by (auto simp: store_in_transaction_def store_reads_def store_writes_def insert_event_def Let_def
           split: sum.splits if_splits)



lemmas example_store_defs = db_replayed_def edit_without_clock_def edit_with_clock_def
  rectangle_payload_def














subsection \<open>Versions under calls that run at the same time\<close>

text \<open>
  C2 fails on the code. Two \<open>SHAPE_CREATED\<close> calls for the empty canvas \<open>c1\<close> both read
  \<open>MAX(version) + 1 = 1\<close> before either has committed: both are stored, both are
  acknowledged with version 1, and the log of the canvas holds the version 1 twice. Run
  one after the other, the same two calls are stored as versions 1 and 2.
\<close>

lemma storeEvent_after_same:
  "shouldStoreEvent etype \<Longrightarrow>
   storeEvent_after newId now d d cid uid etype sid pl = storeEvent newId now d cid uid etype sid pl"
  by (simp add: storeEvent_def storeEvent_after_def store_in_transaction_def split: sum.splits)

theorem racing_stores_share_a_version:
  "map_sum id se_version
     (fst (storeEvent_after ''e1'' 10 db_canvas db_canvas ''c1'' ''u1'' ''SHAPE_CREATED''
             (Some ''s1'') rectangle_payload)) = Inr 1
   \<and> map_sum id se_version
       (fst (storeEvent_after ''e2'' 11 db_canvas db_first ''c1'' ''u2'' ''SHAPE_CREATED''
               (Some ''s2'') circle_payload)) = Inr 1
   \<and> map_sum id se_stored
       (fst (storeEvent_after ''e1'' 10 db_canvas db_canvas ''c1'' ''u1'' ''SHAPE_CREATED''
               (Some ''s1'') rectangle_payload)) = Inr (Some True)
   \<and> map_sum id se_stored
       (fst (storeEvent_after ''e2'' 11 db_canvas db_first ''c1'' ''u2'' ''SHAPE_CREATED''
               (Some ''s2'') circle_payload)) = Inr (Some True)
   \<and> map e_id (events db_raced) = [''e1'', ''e2'']
   \<and> versions_of db_raced ''c1'' = [1, 1]
   \<and> map s_id (shapes db_raced) = [''s1'', ''s2'']
   \<and> versions_of
        (snd (storeEvent ''e2'' 11
                (snd (storeEvent ''e1'' 10 db_canvas ''c1'' ''u1'' ''SHAPE_CREATED'' (Some ''s1'')
                        rectangle_payload))
                ''c1'' ''u2'' ''SHAPE_CREATED'' (Some ''s2'') circle_payload)) ''c1'' = [1, 2]"
proof -
  have "shouldStoreEvent ''SHAPE_CREATED''"
    by (simp add: shouldStoreEvent_def STORED_EVENT_TYPES_def)
  then have f: "db_first = db_created"
    by (simp add: db_first_def db_created_def storeEvent_after_same)
  show ?thesis
    unfolding db_raced_def f
    by (simp add: db_created_eq db_canvas_eq rectangle_payload_def circle_payload_def store_defs)
qed

subsection \<open>The projection\<close>

lemma db_retyped_eq:
  "db_retyped =
     \<lparr>canvases = [\<lparr>c_id = ''c1'', c_name = ''Untitled Canvas'', c_created_at = 0,
                    c_updated_at = 20\<rparr>],
      shapes = [\<lparr>s_id = ''s1'', s_canvas_id = ''c1'', s_type = ''rectangle'',
                  s_properties = [(''x'', JNum 1), (''y'', JNum 2), (''radius'', JNum 5)],
                  s_z_index = Some 0, s_created_at = 10, s_updated_at = 20,
                  s_deleted_at = None\<rparr>],
      events = [\<lparr>e_id = ''e1'', e_canvas_id = ''c1'', e_shape_id = Some ''s1'',
                  e_user_id = ''u1'', e_event_type = ''SHAPE_CREATED'',
                  e_payload = rectangle_payload, e_version = 1, e_created_at = 10\<rparr>,
                \<lparr>e_id = ''e2'', e_canvas_id = ''c1'', e_shape_id = Some ''s1'',
                  e_user_id = ''u1'', e_event_type = ''SHAPE_CREATED'',
                  e_payload = circle_payload, e_version = 2, e_created_at = 20\<rparr>]\<rparr>"
  by (simp add: db_retyped_def db_created_eq circle_payload_def rectangle_payload_def store_defs)

lemma db_crossed_eq:
  "db_crossed =
     \<lparr>canvases = [\<lparr>c_id = ''c1'', c_name = ''Untitled Canvas'', c_created_at = 0,
                    c_updated_at = 10\<rparr>,
                  \<lparr>c_id = ''c2'', c_name = ''Untitled Canvas'', c_created_at = 15,
                    c_updated_at = 20\<rparr>],
      shapes = [\<lparr>s_id = ''s1'', s_canvas_id = ''c1'', s_type = ''rectangle'',
                  s_properties = [(''x'', JNum 1), (''y'', JNum 2), (''radius'', JNum 5)],
                  s_z_index = Some 0, s_created_at = 10, s_updated_at = 20,
                  s_deleted_at = None\<rparr>],
      events = [\<lparr>e_id = ''e1'', e_canvas_id = ''c1'', e_shape_id = Some ''s1'',
                  e_user_id = ''u1'', e_event_type = ''SHAPE_CREATED'',
                  e_payload = rectangle_payload, e_version = 1, e_created_at = 10\<rparr>,
                \<lparr>e_id = ''e2'', e_canvas_id = ''c2'', e_shape_id = Some ''s1'',
                  e_user_id = ''u2'', e_event_type = ''SHAPE_CREATED'',
                  e_payload = circle_payload, e_version = 1, e_created_at = 20\<rparr>]\<rparr>"
  by (simp add: db_crossed_def db_created_eq circle_payload_def rectangle_payload_def store_defs)

lemmas spec_defs = spec_live_shapes_def spec_rule_def patch_shape_def spec_patch_xy_def spec_xy_def
  getEventsSinceVersion_def rectangle_payload_def circle_payload_def

text \<open>
  C1 fails on the code. The rectangle \<open>s1\<close> is created on \<open>c1\<close> and created again as a
  circle. The upsert of \<open>applyEvent\<close> refreshes \<open>properties\<close>, \<open>z_index\<close>, \<open>updated_at\<close> and
  \<open>deleted_at\<close> of the row that holds the id and leaves its \<open>type\<close>: every answer of
  \<open>getCanvasState\<close> shows a rectangle, where the fold of the rules, which set the type on
  every create, has a circle. When the second create is sent on another canvas \<open>c2\<close>, the
  upsert finds the row of \<open>c1\<close> by its id and rewrites that one: \<open>c2\<close> shows no shape where
  the fold of its events has \<open>s1\<close>, and \<open>c1\<close> shows \<open>x = 1\<close> where the fold of its events has
  \<open>x = 10\<close>.
\<close>

theorem recreated_shape_keeps_type:
  "(\<forall>rows. shapes_query db_retyped ''c1'' rows \<longrightarrow>
      map (\<lambda>shape. map_of shape ''type'') (cs_shapes (getCanvasState db_retyped ''c1'' rows))
        = [Some (JStr ''rectangle'')])
   \<and> map_option (map sp_type) (spec_live_shapes (getEventsSinceVersion db_retyped ''c1'' 0))
       = Some [''circle'']
   \<and> (\<forall>rows. shapes_query db_crossed ''c2'' rows \<longrightarrow>
         cs_shapes (getCanvasState db_crossed ''c2'' rows) = [])
   \<and> map_option (map sp_id) (spec_live_shapes (getEventsSinceVersion db_crossed ''c2'' 0))
       = Some [''s1'']
   \<and> (\<forall>rows. shapes_query db_crossed ''c1'' rows \<longrightarrow>
         map (\<lambda>shape. map_of shape ''x'') (cs_shapes (getCanvasState db_crossed ''c1'' rows))
           = [Some (JNum 1)])
   \<and> map_option (map (\<lambda>s. map_of (sp_properties s) ''x''))
        (spec_live_shapes (getEventsSinceVersion db_crossed ''c1'' 0)) = Some [Some (JNum 10)]"
proof (intro conjI allI impI)
  fix rows
  assume "shapes_query db_retyped ''c1'' rows"
  then have "rows = shapes db_retyped"
    by (simp add: shapes_query_def db_retyped_eq)
  then show "map (\<lambda>shape. map_of shape ''type'') (cs_shapes (getCanvasState db_retyped ''c1'' rows))
        = [Some (JStr ''rectangle'')]"
    by (simp add: db_retyped_eq getCanvasState_def shape_json_def assign_def)
next
  show "map_option (map sp_type) (spec_live_shapes (getEventsSinceVersion db_retyped ''c1'' 0))
       = Some [''circle'']"
    by (simp add: db_retyped_eq spec_defs)
next
  fix rows
  assume "shapes_query db_crossed ''c2'' rows"
  then have "rows = []"
    by (simp add: shapes_query_def db_crossed_eq)
  then show "cs_shapes (getCanvasState db_crossed ''c2'' rows) = []"
    by (simp add: getCanvasState_def)
next
  show "map_option (map sp_id) (spec_live_shapes (getEventsSinceVersion db_crossed ''c2'' 0))
       = Some [''s1'']"
    by (simp add: db_crossed_eq spec_defs)
next
  fix rows
  assume "shapes_query db_crossed ''c1'' rows"
  then have "rows = shapes db_crossed"
    by (simp add: shapes_query_def db_crossed_eq)
  then show "map (\<lambda>shape. map_of shape ''x'') (cs_shapes (getCanvasState db_crossed ''c1'' rows))
           = [Some (JNum 1)]"
    by (simp add: db_crossed_eq getCanvasState_def shape_json_def assign_def)
next
  show "map_option (map (\<lambda>s. map_of (sp_properties s) ''x''))
        (spec_live_shapes (getEventsSinceVersion db_crossed ''c1'' 0)) = Some [Some (JNum 10)]"
    by (simp add: db_crossed_eq spec_defs)
qed

theorem recreated_shape_keeps_type_witness:
  "shapes_query db_retyped ''c1'' (shapes db_retyped)
   \<and> cs_shapes (getCanvasState db_retyped ''c1'' (shapes db_retyped))
       = [[(''id'', JStr ''s1''), (''type'', JStr ''rectangle''), (''x'', JNum 1), (''y'', JNum 2),
           (''radius'', JNum 5), (''zIndex'', JNum 0)]]
   \<and> map (\<lambda>shape. map_of shape ''type'')
        (cs_shapes (getCanvasState db_retyped ''c1'' (shapes db_retyped))) = [Some (JStr ''rectangle'')]
   \<and> shapes_query db_crossed ''c2'' []
   \<and> cs_shapes (getCanvasState db_crossed ''c2'' []) = []
   \<and> shapes_query db_crossed ''c1'' (shapes db_crossed)
   \<and> map (\<lambda>shape. map_of shape ''x'')
        (cs_shapes (getCanvasState db_crossed ''c1'' (shapes db_crossed))) = [Some (JNum 1)]"
proof -
  have q: "shapes_query db_retyped ''c1'' (shapes db_retyped)"
    "shapes_query db_crossed ''c2'' []" "shapes_query db_crossed ''c1'' (shapes db_crossed)"
    by (simp_all add: shapes_query_def db_retyped_eq db_crossed_eq)
  have j: "cs_shapes (getCanvasState db_retyped ''c1'' (shapes db_retyped))
       = [[(''id'', JStr ''s1''), (''type'', JStr ''rectangle''), (''x'', JNum 1), (''y'', JNum 2),
           (''radius'', JNum 5), (''zIndex'', JNum 0)]]"
    by (simp add: db_retyped_eq getCanvasState_def shape_json_def assign_def)
  from recreated_shape_keeps_type q j show ?thesis by blast
qed


text \<open>
  On the run of the example, where each shape is created once, the delete is a tombstone:
  \<open>getCanvasState\<close> is given no row, and all three events are still returned, the delete
  among them.
\<close>

lemma deleted_shape_is_omitted:
  "(\<forall>rows. shapes_query db_deleted ''c1'' rows \<longleftrightarrow> rows = [])
   \<and> getCanvasState db_deleted ''c1'' [] = \<lparr>cs_shapes = [], cs_version = 3\<rparr>
   \<and> map e_event_type (getEventsSinceVersion db_deleted ''c1'' 0)
       = [''SHAPE_CREATED'', ''SHAPE_MOVED'', ''SHAPE_DELETED'']"
  by (auto simp: shapes_query_def db_deleted_eq getCanvasState_def getCurrentVersion_def
        getEventsSinceVersion_def)

section \<open>Properties of the conflict resolver\<close>

subsection \<open>Vector clocks\<close>

lemma gt_lt: "gt a b \<longleftrightarrow> lt b a"
  by (cases a; cases b) auto

lemma set_Set_of: "set (Set_of xs) = set xs"
  by (simp add: Set_of_def)

lemma distinct_Set_of: "distinct (Set_of xs)"
  by (simp add: Set_of_def)

lemma set_allNodes: "set (allNodes a b) = fst ` set a \<union> fst ` set b"
  by (simp add: allNodes_def set_Set_of)

lemma happenedBefore_loop_iff:
  "happenedBefore_loop a b ns acc \<longleftrightarrow>
     (\<forall>n \<in> set ns. \<not> gt (vc_get a n) (vc_get b n)) \<and> (acc \<or> (\<exists>n \<in> set ns. lt (vc_get a n) (vc_get b n)))"
  by (induction ns arbitrary: acc) (auto simp: Let_def)

lemma happenedBefore_iff:
  "happenedBefore a b \<longleftrightarrow>
     (\<forall>n \<in> set (allNodes a b). \<not> gt (vc_get a n) (vc_get b n))
     \<and> (\<exists>n \<in> set (allNodes a b). lt (vc_get a n) (vc_get b n))"
  by (simp add: happenedBefore_def happenedBefore_loop_iff)

lemma happenedBefore_asym: "happenedBefore a b \<Longrightarrow> \<not> happenedBefore b a"
proof
  assume "happenedBefore a b" and ba: "happenedBefore b a"
  then obtain n where n: "n \<in> set (allNodes a b)" and "lt (vc_get a n) (vc_get b n)"
    by (auto simp: happenedBefore_iff)
  then have "gt (vc_get b n) (vc_get a n)" by (simp add: gt_lt)
  moreover from n have "n \<in> set (allNodes b a)" by (auto simp: set_allNodes)
  ultimately show False using ba by (auto simp: happenedBefore_iff)
qed

lemma vc_get_Number: "vc_get c n = Number v \<Longrightarrow> sparse c n = v"
  by (auto simp: vc_get_def js_get_def sparse_def split: option.splits if_splits)

lemma lt_Number: "lt x y \<Longrightarrow> \<exists>a b. x = Number a \<and> y = Number b \<and> a < b"
  by (cases x; cases y) auto

lemma spec_not_before:
  assumes "spec_happensBefore a b"
  shows "\<not> happenedBefore b a"
proof
  assume "happenedBefore b a"
  then obtain n where n: "n \<in> set (allNodes b a)" and "lt (vc_get b n) (vc_get a n)"
    by (auto simp: happenedBefore_iff)
  then obtain x y where "vc_get b n = Number x" "vc_get a n = Number y" "x < y"
    by (blast dest: lt_Number)
  then have "sparse b n < sparse a n" by (simp add: vc_get_Number)
  moreover from n have "n \<in> set (allNodes a b)" by (auto simp: set_allNodes)
  ultimately show False using assms by (auto simp: spec_happensBefore_def)
qed

lemmas resolver_defs = resolveConflict_def remoteClock_of_def localTimestamps_of_def
  remoteTimestamps_of_def happenedBefore_def allNodes_def Set_of_def vc_get_def vc_merge_def
  mergeShapeProperties_def chosen_value_def keys_of_def value_of_def ts_get_def Let_def
  new_ConflictResolver_def recordLocalOperation_def increment_def updateShape_def
  applyRemoteEvent_def updateFromRemote_def isConcurrent_def js_get_def js_set_def
  Object_prototype_def spec_happensBefore_def sparse_def

lemmas example_defs = base_shape_def replica_A_def replica_B_def edit_A_def edit_B_def
  earlier_shape_def ahead_A_def behind_B_def resolver_A_def shape_A_def
  concurrent_event_def fresh_A_def relabel_def

text \<open>
  C4. If clock \<open>A\<close> happened before clock \<open>B\<close>, as \<open>happenedBefore\<close> computes it or in the
  sense of the specification (sparse clocks, absent keys read as 0), then \<open>B\<close> did not
  happen before \<open>A\<close>, and a resolver whose clock is \<open>A\<close>, given a remote event whose clock is
  \<open>B\<close>, does not answer \<open>KEEP_LOCAL\<close>; when \<open>happenedBefore\<close> says so, it answers
  \<open>APPLY_REMOTE\<close> with the properties of the event.
\<close>

theorem no_KEEP_LOCAL_for_later_event:
  assumes "happenedBefore A B \<or> spec_happensBefore A B"
  shows "\<not> happenedBefore B A
         \<and> (\<forall>res r'. resolveConflict (r\<lparr>cr_vectorClock := A\<rparr>) sid localShape
                         (ev\<lparr>re_vectorClock := Some B\<rparr>) = Some (res, r') \<longrightarrow>
                     res_action res \<noteq> KEEP_LOCAL)
         \<and> (happenedBefore A B \<longrightarrow>
              resolveConflict (r\<lparr>cr_vectorClock := A\<rparr>) sid localShape (ev\<lparr>re_vectorClock := Some B\<rparr>)
                = Some (\<lparr>res_action = APPLY_REMOTE, res_shape = re_properties ev\<rparr>,
                        r\<lparr>cr_vectorClock := A\<rparr>))"
proof -
  from assms have n: "\<not> happenedBefore B A"
    using happenedBefore_asym spec_not_before by blast
  have 2: "\<forall>res r'. resolveConflict (r\<lparr>cr_vectorClock := A\<rparr>) sid localShape
                         (ev\<lparr>re_vectorClock := Some B\<rparr>) = Some (res, r') \<longrightarrow>
                     res_action res \<noteq> KEEP_LOCAL"
    using n by (auto simp: resolveConflict_def remoteClock_of_def Let_def split: if_splits option.splits)
  have 3: "happenedBefore A B \<longrightarrow>
              resolveConflict (r\<lparr>cr_vectorClock := A\<rparr>) sid localShape (ev\<lparr>re_vectorClock := Some B\<rparr>)
                = Some (\<lparr>res_action = APPLY_REMOTE, res_shape = re_properties ev\<rparr>,
                        r\<lparr>cr_vectorClock := A\<rparr>)"
    using n by (simp add: resolveConflict_def remoteClock_of_def)
  from n 2 3 show ?thesis by (intro conjI)
qed

theorem no_KEEP_LOCAL_for_later_event_witness:
  "happenedBefore [(''A'', 1)] [(''A'', 1), (''B'', 1)]
   \<and> spec_happensBefore [(''A'', 1)] [(''A'', 1), (''B'', 1)]
   \<and> \<not> happenedBefore [(''A'', 1), (''B'', 1)] [(''A'', 1)]
   \<and> resolveConflict (resolver_A\<lparr>cr_vectorClock := [(''A'', 1)]\<rparr>) ''s1'' shape_A
        (concurrent_event\<lparr>re_vectorClock := Some [(''A'', 1), (''B'', 1)]\<rparr>)
       = Some (\<lparr>res_action = APPLY_REMOTE, res_shape = Some [(''strokeWidth'', JNum 5)]\<rparr>,
               resolver_A\<lparr>cr_vectorClock := [(''A'', 1)]\<rparr>)
   \<and> spec_happensBefore [] [(''constructor'', 1)]
   \<and> \<not> happenedBefore [] [(''constructor'', 1)]
   \<and> \<not> happenedBefore [(''constructor'', 1)] []"
proof -
  have h: "happenedBefore [(''A'', 1)] [(''A'', 1), (''B'', 1)]"
    by (simp add: resolver_defs)
  have s: "spec_happensBefore [(''A'', 1)] [(''A'', 1), (''B'', 1)]"
    by (simp add: resolver_defs)
  have c: "spec_happensBefore [] [(''constructor'', 1)]"
    "\<not> happenedBefore [] [(''constructor'', 1)]"
    by (simp_all add: resolver_defs)
  have p: "re_properties concurrent_event = Some [(''strokeWidth'', JNum 5)]"
    by (simp add: concurrent_event_def)
  from no_KEEP_LOCAL_for_later_event [of "[(''A'', 1)]" "[(''A'', 1), (''B'', 1)]"
         resolver_A "''s1''" shape_A concurrent_event] h
  have 1: "\<not> happenedBefore [(''A'', 1), (''B'', 1)] [(''A'', 1)]
     \<and> resolveConflict (resolver_A\<lparr>cr_vectorClock := [(''A'', 1)]\<rparr>) ''s1'' shape_A
        (concurrent_event\<lparr>re_vectorClock := Some [(''A'', 1), (''B'', 1)]\<rparr>)
       = Some (\<lparr>res_action = APPLY_REMOTE, res_shape = Some [(''strokeWidth'', JNum 5)]\<rparr>,
               resolver_A\<lparr>cr_vectorClock := [(''A'', 1)]\<rparr>)"
    by (simp add: p)
  from no_KEEP_LOCAL_for_later_event [of "[]" "[(''constructor'', 1)]"] c(1)
  have 2: "\<not> happenedBefore [(''constructor'', 1)] []"
    by blast
  from h s 1 c 2 show ?thesis by (intro conjI) simp_all
qed

text \<open>
  C3 fails on the code. User \<open>A\<close> sets a property to \<open>mine\<close> at time 5 and then receives a
  concurrent event that sets it to \<open>theirs\<close> and carries no timestamp for it. For a
  property named \<open>label\<close> the remote timestamp reads 0 and the local value, with the
  greater timestamp, is kept. For a property named \<open>constructor\<close> the remote timestamp reads
  the member of that name that every object inherits; 5 is not greater than it, and the
  merge takes \<open>theirs\<close>.
\<close>

theorem inherited_timestamp_beats_local:
  "updateShape 5 ''s1'' [(''label'', JStr ''mine'')] fresh_A
     = Some (\<lparr>re_vectorClock = Some [(''A'', 1)], re_propertyTimestamps = Some [(''label'', 5)],
               re_properties = Some [(''label'', JStr ''mine'')]\<rparr>,
             \<lparr>rp_shape = [(''id'', JStr ''s1''), (''label'', JStr ''mine'')],
               rp_resolver = \<lparr>cr_userId = ''A'', cr_vectorClock = [(''A'', 1)],
                              cr_propertyTimestamps = [(''s1'', [(''label'', 5)])]\<rparr>\<rparr>)
   \<and> map_option fst
       (resolveConflict
          \<lparr>cr_userId = ''A'', cr_vectorClock = [(''A'', 1)],
            cr_propertyTimestamps = [(''s1'', [(''label'', 5)])]\<rparr>
          ''s1'' [(''id'', JStr ''s1''), (''label'', JStr ''mine'')] (relabel ''label''))
       = Some \<lparr>res_action = MERGE,
                res_shape = Some [(''id'', JStr ''s1''), (''label'', JStr ''mine'')]\<rparr>
   \<and> updateShape 5 ''s1'' [(''constructor'', JStr ''mine'')] fresh_A
       = Some (\<lparr>re_vectorClock = Some [(''A'', 1)],
                 re_propertyTimestamps = Some [(''constructor'', 5)],
                 re_properties = Some [(''constructor'', JStr ''mine'')]\<rparr>,
               \<lparr>rp_shape = [(''id'', JStr ''s1''), (''constructor'', JStr ''mine'')],
                 rp_resolver = \<lparr>cr_userId = ''A'', cr_vectorClock = [(''A'', 1)],
                                cr_propertyTimestamps = [(''s1'', [(''constructor'', 5)])]\<rparr>\<rparr>)
   \<and> map_option fst
       (resolveConflict
          \<lparr>cr_userId = ''A'', cr_vectorClock = [(''A'', 1)],
            cr_propertyTimestamps = [(''s1'', [(''constructor'', 5)])]\<rparr>
          ''s1'' [(''id'', JStr ''s1''), (''constructor'', JStr ''mine'')] (relabel ''constructor''))
       = Some \<lparr>res_action = MERGE,
                res_shape = Some [(''id'', JStr ''s1''), (''constructor'', JStr ''theirs'')]\<rparr>
   \<and> ts_get [(''label'', 5)] ''label'' = Number 5 \<and> ts_get [] ''label'' = Number 0
   \<and> ts_get [(''constructor'', 5)] ''constructor'' = Number 5 \<and> ts_get [] ''constructor'' = Member"
  by (simp add: example_defs resolver_defs)

subsection \<open>Ordinary keys\<close>

text \<open>
  For keys that are not names of members of \<open>Object.prototype\<close>, reads and writes are those
  of a finite map.
\<close>

lemma js_get_ordinary:
  "k \<notin> set Object_prototype \<Longrightarrow>
   js_get obj k = (case map_of obj k of None \<Rightarrow> Undefined | Some v \<Rightarrow> Own v)"
  by (simp add: js_get_def split: option.splits)

lemma ts_get_ordinary:
  "k \<notin> set Object_prototype \<Longrightarrow> ts_get t k = Number (case map_of t k of None \<Rightarrow> 0 | Some v \<Rightarrow> v)"
  by (simp add: ts_get_def js_get_ordinary split: option.splits)













subsection \<open>Two replicas\<close>









section \<open>Properties of the websocket manager\<close>

lemma send_sent:
  "sent (send w msg n) w' = (if w' = w \<and> readyState n w = OPEN then sent n w' @ [msg] else sent n w')"
  by (simp add: send_def)

lemma send_readyState: "readyState (send w msg n) = readyState n"
  by (simp add: send_def)

lemma broadcast_fold:
  "readyState (fold (\<lambda>w n'. if Some w \<noteq> ex then send w msg n' else n') room n) = readyState n
   \<and> (distinct room \<longrightarrow>
        sent (fold (\<lambda>w n'. if Some w \<noteq> ex then send w msg n' else n') room n) w' =
          (if w' \<in> set room \<and> Some w' \<noteq> ex \<and> readyState n w' = OPEN
           then sent n w' @ [msg] else sent n w'))"
  by (induction room arbitrary: n) (auto simp: send_sent send_readyState)

lemma broadcastToCanvas_readyState:
  "readyState (broadcastToCanvas m cid msg ex n) = readyState n"
  by (simp add: broadcastToCanvas_def broadcast_fold split: option.splits)


lemma broadcast_fold_excluded:
  "sent (fold (\<lambda>w n'. if w \<noteq> x then send w msg n' else n') room n) x = sent n x"
  by (induction room arbitrary: n) (auto simp: send_sent)

lemma broadcastToCanvas_excluded:
  "sent (broadcastToCanvas m cid msg (Some x) n) x = sent n x"
  by (simp add: broadcastToCanvas_def broadcast_fold_excluded split: option.splits)


lemmas ws_defs = handleShapeEvent_def handleShapeEvent_resume_def handleBatchSync_def
  broadcastToCanvas_def send_def
  sendError_def batch_ack_def room_manager_def sender_info_def sender_gone_def quiet_net_def
  later_net_def
  move_request_def two_edits_def batch_ids_def broadcast_of_def



text \<open>
  When the sender has left the canvas by the time the store returns, the event is stored
  and acknowledged and no peer is written anything.
\<close>

lemma sender_gone_reaches_no_peer:
  "sent (fst (handleShapeEvent ''e2'' 5000 1 sender_info move_request (quiet_net, db_created)
                (room_manager, sender_gone, quiet_net))) 2 = []
   \<and> sent (fst (handleShapeEvent ''e2'' 5000 1 sender_info move_request (quiet_net, db_created)
                (room_manager, sender_gone, quiet_net))) 1
       = [EVENT_ACK (Some (JStr ''l1'')) (Some ''e2'') 2 (Some True) (Some False)]"
  by (simp add: db_created_eq ws_defs store_defs)

subsection \<open>Batch acknowledgements\<close>

lemma storeBatch_loop_kinds:
  assumes "storeBatch_loop newIds now cid evs acc cs d = Inr (storedEvents, cs', d')"
  shows "map (\<lambda>e. (se_shapeId e, se_eventType e)) storedEvents =
           map (\<lambda>e. (se_shapeId e, se_eventType e)) acc @
           map (\<lambda>e. (b_shapeId e, b_eventType e)) (filter (\<lambda>e. shouldStoreEvent (b_eventType e)) evs)"
  using assms
proof (induction evs arbitrary: acc cs d)
  case Nil
  then show ?case by simp
next
  case (Cons ev evs)
  show ?case
  proof (cases "shouldStoreEvent (b_eventType ev)")
    case False
    with Cons show ?thesis by simp
  next
    case True
    with Cons.prems obtain se k d1 where
      s: "store_in_transaction (newIds (length acc)) now d cid (b_userId ev) (b_eventType ev)
            (b_shapeId ev) (b_payload ev) = Inr (se, k, d1)"
      by (auto split: sum.splits)
    with Cons.prems True obtain c where
      l: "storeBatch_loop newIds now cid evs (acc @ [se\<lparr>se_stored := None\<rparr>]) c d1
            = Inr (storedEvents, cs', d')"
      by (auto split: sum.splits)
    from store_in_transaction_Inr(3) [OF s]
    have "se_shapeId se = b_shapeId ev" "se_eventType se = b_eventType ev" by simp_all
    with Cons.IH [OF l] True show ?thesis by simp
  qed
qed

text \<open>
  C10. In the \<open>BATCH_SYNC_RESULT\<close> written to the client, the entry of each stored event
  takes its \<open>localEventId\<close> from the first submitted event with the same \<open>shapeId\<close> and
  \<open>eventType\<close>, not from the event that produced it; so for a batch of two storable events
  with the same shape and kind both entries carry the first event's \<open>localEventId\<close>, and
  the second's is not acknowledged.
\<close>

theorem batch_ack_takes_first_match:
  assumes joined: "cn_canvasId connInfo = Some cid"
    and opened: "readyState n w = OPEN"
    and stored: "storeBatchEvents newIds now d cid (map (\<lambda>e. e\<lparr>b_userId := cn_userId connInfo\<rparr>) evs)
                   = (Inr (storedEvents, conflicts), d')"
  shows "sent (fst (handleBatchSync m newIds now w connInfo evs lastKnownVersion rows (n, d))) w
           = sent n w @ [BATCH_SYNC_RESULT (map (batch_ack evs) storedEvents)
                           (getEventsSinceVersion d cid lastKnownVersion)
                           (getCanvasState d' cid rows) conflicts]
       \<and> map ak_localEventId (map (batch_ack evs) storedEvents)
           = map (\<lambda>e. first_match evs (b_shapeId e) (b_eventType e))
               (filter (\<lambda>e. shouldStoreEvent (b_eventType e)) evs)
       \<and> (\<forall>e1 e2. evs = [e1, e2] \<and> shouldStoreEvent (b_eventType e1)
             \<and> b_shapeId e2 = b_shapeId e1 \<and> b_eventType e2 = b_eventType e1 \<longrightarrow>
             map ak_localEventId (map (batch_ack evs) storedEvents)
               = [b_localEventId e1, b_localEventId e1])"
proof -
  let ?evs = "map (\<lambda>e. e\<lparr>b_userId := cn_userId connInfo\<rparr>) evs"
  let ?reply = "BATCH_SYNC_RESULT (map (batch_ack evs) storedEvents)
                  (getEventsSinceVersion d cid lastKnownVersion) (getCanvasState d' cid rows) conflicts"
  have excl: "sent (fold (\<lambda>ev n'. broadcastToCanvas m cid (f ev) (Some w) n') xs n0) w = sent n0 w"
    for f :: "stored_event \<Rightarrow> message" and xs n0
    by (induction xs arbitrary: n0) (simp_all add: broadcastToCanvas_excluded)
  have 1: "sent (fst (handleBatchSync m newIds now w connInfo evs lastKnownVersion rows (n, d))) w
             = sent n w @ [?reply]"
    using joined opened stored by (simp add: handleBatchSync_def Let_def excl send_sent)
  from stored obtain d1 where
    l: "storeBatch_loop newIds now cid ?evs [] [] d = Inr (storedEvents, conflicts, d1)"
    by (auto simp: storeBatchEvents_def split: sum.splits)
  have "map (\<lambda>e. (se_shapeId e, se_eventType e)) storedEvents =
          map (\<lambda>e. (b_shapeId e, b_eventType e)) (filter (\<lambda>e. shouldStoreEvent (b_eventType e)) ?evs)"
    using storeBatch_loop_kinds [OF l] by simp
  also have "\<dots> = map (\<lambda>e. (b_shapeId e, b_eventType e))
                     (filter (\<lambda>e. shouldStoreEvent (b_eventType e)) evs)"
    by (simp add: filter_map o_def)
  finally have kinds: "map (\<lambda>e. (se_shapeId e, se_eventType e)) storedEvents =
      map (\<lambda>e. (b_shapeId e, b_eventType e)) (filter (\<lambda>e. shouldStoreEvent (b_eventType e)) evs)" .
  have "map ak_localEventId (map (batch_ack evs) storedEvents)
          = map (\<lambda>p. first_match evs (fst p) (snd p)) (map (\<lambda>e. (se_shapeId e, se_eventType e)) storedEvents)"
    by (simp add: batch_ack_def first_match_def o_def)
  also have "\<dots> = map (\<lambda>e. first_match evs (b_shapeId e) (b_eventType e))
                     (filter (\<lambda>e. shouldStoreEvent (b_eventType e)) evs)"
    by (simp only: kinds) (simp add: o_def)
  finally have 2: "map ak_localEventId (map (batch_ack evs) storedEvents)
           = map (\<lambda>e. first_match evs (b_shapeId e) (b_eventType e))
               (filter (\<lambda>e. shouldStoreEvent (b_eventType e)) evs)" .
  have 3: "\<forall>e1 e2. evs = [e1, e2] \<and> shouldStoreEvent (b_eventType e1)
             \<and> b_shapeId e2 = b_shapeId e1 \<and> b_eventType e2 = b_eventType e1 \<longrightarrow>
             map ak_localEventId (map (batch_ack evs) storedEvents)
               = [b_localEventId e1, b_localEventId e1]"
    by (auto simp only: 2) (simp add: first_match_def)
  from 1 2 3 show ?thesis by blast
qed

theorem batch_ack_takes_first_match_witness:
  "cn_canvasId sender_info = Some ''c1'' \<and> readyState quiet_net 1 = OPEN
   \<and> (\<exists>storedEvents conflicts d'.
         storeBatchEvents batch_ids 7000 db_created ''c1''
           (map (\<lambda>e. e\<lparr>b_userId := cn_userId sender_info\<rparr>) two_edits)
           = (Inr (storedEvents, conflicts), d')
       \<and> map se_version storedEvents = [2, 3]
       \<and> sent (fst (handleBatchSync room_manager batch_ids 7000 1 sender_info two_edits 1
                      (shapes d') (quiet_net, db_created))) 1
           = [BATCH_SYNC_RESULT (map (batch_ack two_edits) storedEvents)
                (getEventsSinceVersion db_created ''c1'' 1) (getCanvasState d' ''c1'' (shapes d')) conflicts]
       \<and> map ak_localEventId (map (batch_ack two_edits) storedEvents)
           = [Some (JStr ''l1''), Some (JStr ''l1'')])
   \<and> map b_localEventId two_edits = [Some (JStr ''l1''), Some (JStr ''l2'')]"
proof -
  have j: "cn_canvasId sender_info = Some ''c1''" by (simp add: sender_info_def)
  have o: "readyState quiet_net 1 = OPEN" by (simp add: quiet_net_def)
  obtain storedEvents conflicts d' where
    s: "storeBatchEvents batch_ids 7000 db_created ''c1''
           (map (\<lambda>e. e\<lparr>b_userId := cn_userId sender_info\<rparr>) two_edits)
           = (Inr (storedEvents, conflicts), d')"
    and v: "map se_version storedEvents = [2, 3]"
    by (simp add: db_created_eq sender_info_def two_edits_def batch_ids_def store_defs)
  have e: "two_edits = [hd two_edits, hd (tl two_edits)]
           \<and> shouldStoreEvent (b_eventType (hd two_edits))
           \<and> b_shapeId (hd (tl two_edits)) = b_shapeId (hd two_edits)
           \<and> b_eventType (hd (tl two_edits)) = b_eventType (hd two_edits)"
    by (simp add: two_edits_def shouldStoreEvent_def STORED_EVENT_TYPES_def)
  from batch_ack_takes_first_match [OF j o s, of room_manager 1 "shapes d'"] e
  have "sent (fst (handleBatchSync room_manager batch_ids 7000 1 sender_info two_edits 1
                      (shapes d') (quiet_net, db_created))) 1
           = sent quiet_net 1 @ [BATCH_SYNC_RESULT (map (batch_ack two_edits) storedEvents)
                (getEventsSinceVersion db_created ''c1'' 1) (getCanvasState d' ''c1'' (shapes d')) conflicts]"
    and "map ak_localEventId (map (batch_ack two_edits) storedEvents)
           = [b_localEventId (hd two_edits), b_localEventId (hd two_edits)]"
    by blast+
  then have m: "sent (fst (handleBatchSync room_manager batch_ids 7000 1 sender_info two_edits 1
                      (shapes d') (quiet_net, db_created))) 1
           = [BATCH_SYNC_RESULT (map (batch_ack two_edits) storedEvents)
                (getEventsSinceVersion db_created ''c1'' 1) (getCanvasState d' ''c1'' (shapes d')) conflicts]"
    and a: "map ak_localEventId (map (batch_ack two_edits) storedEvents)
           = [Some (JStr ''l1''), Some (JStr ''l1'')]"
    by (simp_all add: quiet_net_def two_edits_def)
  have l: "map b_localEventId two_edits = [Some (JStr ''l1''), Some (JStr ''l2'')]"
    by (simp add: two_edits_def)
  show ?thesis
    by (intro conjI exI [of _ storedEvents] exI [of _ conflicts] exI [of _ d']) (fact j o s v m a l)+
qed

end
